theory Spec2Isabelle
  imports Complex_Main "HOL-Library.AList"
begin

text \<open>
  The repository is a set of adapter processes, each a tool catalog and a call-tool
  handler that forwards an invocation to one external system. This theory embeds the
  list-tools and call-tool handlers of the Telegram, RSS, Supabase, Bluesky, Shortcuts,
  Obsidian and simulator adapters and the start of the processes that need configuration,
  and proves how they treat unknown tools, missing arguments, failing and succeeding
  capability calls, defaults and limits.
\<close>

section \<open>JavaScript values\<close>

text \<open>
  The adapters are TypeScript programs over dynamically typed request payloads. A payload
  value is a \<open>jsval\<close>: the JSON values together with \<open>undefined\<close>, which is what reading
  an absent property yields. Numbers are rationals (every finite double is one; a JSON
  payload cannot carry \<open>NaN\<close> or an infinity). An object is the association list of its
  properties; the first binding of a key is the property's value.
\<close>

datatype jsval =
    JUndefined
  | JNull
  | JBool bool
  | JNum rat
  | JStr string
  | JArr "jsval list"
  | JObj "(string \<times> jsval) list"

type_synonym jsobj = "(string \<times> jsval) list"

text \<open>Property read \<open>obj.k\<close> on an object.\<close>

definition js_get :: "jsobj \<Rightarrow> string \<Rightarrow> jsval" where
  "js_get obj k = (case map_of obj k of None \<Rightarrow> JUndefined | Some v \<Rightarrow> v)"

text \<open>\<open>ToBoolean\<close>: what \<open>if (v)\<close>, \<open>!v\<close>, \<open>v || d\<close> and \<open>c ? a : b\<close> test.\<close>

fun truthy :: "jsval \<Rightarrow> bool" where
  "truthy JUndefined = False"
| "truthy JNull = False"
| "truthy (JBool b) = b"
| "truthy (JNum q) = (q \<noteq> 0)"
| "truthy (JStr s) = (s \<noteq> [])"
| "truthy (JArr xs) = True"
| "truthy (JObj kvs) = True"

fun typeof :: "jsval \<Rightarrow> string" where
  "typeof JUndefined = ''undefined''"
| "typeof JNull = ''object''"
| "typeof (JBool b) = ''boolean''"
| "typeof (JNum q) = ''number''"
| "typeof (JStr s) = ''string''"
| "typeof (JArr xs) = ''object''"
| "typeof (JObj kvs) = ''object''"

text \<open>A destructuring default \<open>{ k = d }\<close> applies exactly when the property is \<open>undefined\<close>.\<close>

definition default_to :: "jsval \<Rightarrow> jsval \<Rightarrow> jsval" where
  "default_to v d = (if v = JUndefined then d else v)"

text \<open>\<open>a || b\<close>.\<close>

definition js_or :: "jsval \<Rightarrow> jsval \<Rightarrow> jsval" where
  "js_or a b = (if truthy a then a else b)"

text \<open>
  The parts of the JavaScript runtime the handlers call and that are not code of the
  repository are parameters: \<open>stringify n v\<close> is \<open>JSON.stringify(v, null, n)\<close> (with
  \<open>n = 0\<close> for \<open>JSON.stringify(v)\<close>), \<open>json_parse\<close> is \<open>JSON.parse\<close> (the message of
  its \<open>SyntaxError\<close>, or the value), \<open>number_text\<close> is the number-to-string conversion,
  \<open>date_value v\<close> is \<open>new Date(v).getTime()\<close> (\<open>None\<close> for an invalid date, whose
  comparisons are all false) and \<open>lower_case\<close> is \<open>String.prototype.toLowerCase\<close>.
  \<open>JSON.stringify(undefined)\<close> is \<open>undefined\<close> rather than a string; the model leaves
  \<open>stringify n JUndefined\<close> to the parameter.
\<close>

record js_runtime =
  stringify :: "nat \<Rightarrow> jsval \<Rightarrow> string"
  json_parse :: "string \<Rightarrow> string + jsval"
  number_text :: "rat \<Rightarrow> string"
  date_value :: "jsval \<Rightarrow> rat option"
  lower_case :: "string \<Rightarrow> string"

fun join_with :: "string \<Rightarrow> string list \<Rightarrow> string" where
  "join_with sep [] = []"
| "join_with sep [x] = x"
| "join_with sep (x # y # ys) = x @ sep @ join_with sep (y # ys)"

text \<open>\<open>String(v)\<close>, the conversion a template literal \<open>`${v}`\<close> applies.\<close>

fun js_String :: "js_runtime \<Rightarrow> jsval \<Rightarrow> string" where
  "js_String rt JUndefined = ''undefined''"
| "js_String rt JNull = ''null''"
| "js_String rt (JBool b) = (if b then ''true'' else ''false'')"
| "js_String rt (JNum q) = number_text rt q"
| "js_String rt (JStr s) = s"
| "js_String rt (JArr xs) =
     join_with '','' (map (\<lambda>x. if x = JUndefined \<or> x = JNull then [] else js_String rt x) xs)"
| "js_String rt (JObj kvs) = ''[object Object]''"

section \<open>Protocol types\<close>

text \<open>
  \<open>ErrorCode\<close> and \<open>McpError\<close> come from the protocol SDK. The constructor
  \<open>new McpError(code, message)\<close> builds an \<open>Error\<close> whose \<open>message\<close> property is
  \<open>`MCP error ${code}: ${message}`\<close>. Errors the engine or a library throws are \<open>Error\<close>
  (\<open>TypeError\<close> for the engine's own), with their message.
\<close>

datatype error_code = MethodNotFound | InvalidParams | InternalError

fun code_text :: "error_code \<Rightarrow> string" where
  "code_text MethodNotFound = ''-32601''"
| "code_text InvalidParams = ''-32602''"
| "code_text InternalError = ''-32603''"

datatype js_error = Error string | TypeError string | McpError error_code string

fun message :: "js_error \<Rightarrow> string" where
  "message (Error m) = m"
| "message (TypeError m) = m"
| "message (McpError c m) = ''MCP error '' @ code_text c @ '': '' @ m"

record content_block =
  type :: string
  text' :: string

text \<open>
  The object a call-tool handler returns. \<open>isError\<close> is \<open>None\<close> where the object
  literal has no such property.
\<close>

record call_tool_result =
  content :: "content_block list"
  isError :: "bool option"

record tool =
  name :: string
  description :: string
  inputSchema :: jsval

text \<open>
  A handler either returns a result or throws; a thrown error leaves the handler and
  reaches the transport as a protocol-level error response.
\<close>

type_synonym outcome = "js_error + call_tool_result"

text \<open>
  A Backing Capability is an oracle from the call made to its failure (the message of the
  error it raises) or its result. A handler returns the calls it made, in order, beside its
  outcome. \<open>await cap c k\<close> is \<open>k(await cap(c))\<close>: the call is recorded, a failure is
  thrown as an \<open>Error\<close>. Writing to the console (\<open>console.error\<close>, \<open>console.log\<close>) is
  the only other effect of the handlers and is left out.
\<close>

definition await :: "('c \<Rightarrow> string + 'r) \<Rightarrow> 'c \<Rightarrow> ('r \<Rightarrow> js_error + 'a) \<Rightarrow> 'c list \<times> (js_error + 'a)" where
  "await cap c k = (case cap c of Inl m \<Rightarrow> ([c], Inl (Error m)) | Inr r \<Rightarrow> ([c], k r))"

text \<open>The message V8 gives the \<open>TypeError\<close> of destructuring \<open>undefined\<close>.\<close>

definition cannot_destructure :: "string \<Rightarrow> string" where
  "cannot_destructure k =
     ''Cannot destructure property '' @ [CHR 0x27] @ k @ [CHR 0x27]
       @ '' of '' @ [CHR 0x27] @ ''request.params.arguments'' @ [CHR 0x27] @ '' as it is undefined.''"

text \<open>The one-block result \<open>{ content: [{ type: 'text', text: t }] }\<close>.\<close>

definition text_result :: "string \<Rightarrow> call_tool_result" where
  "text_result t = \<lparr>content = [\<lparr>type = ''text'', text' = t\<rparr>], isError = None\<rparr>"

definition error_result :: "string \<Rightarrow> call_tool_result" where
  "error_result t = \<lparr>content = [\<lparr>type = ''text'', text' = t\<rparr>], isError = Some True\<rparr>"

section \<open>The Telegram adapter\<close>

definition telegram_tools :: "tool list" where
  "telegram_tools = [
    \<lparr>name = ''send_message'',
     description = ''Send a message to a Telegram chat'',
     inputSchema = JObj [
            (''type'', JStr ''object''),
            (''properties'', JObj [
              (''chat_id'', JObj [
                (''type'', JStr ''string''),
                (''description'', JStr ''Chat ID or @username of the target chat'')]),
              (''text'', JObj [
                (''type'', JStr ''string''),
                (''description'', JStr ''Text message to send'')]),
              (''parse_mode'', JObj [
                (''type'', JStr ''string''),
                (''enum'', JArr [JStr ''Markdown'', JStr ''HTML'']),
                (''description'', JStr ''Parse mode for message formatting'')])]),
            (''required'', JArr [JStr ''chat_id'', JStr ''text''])]\<rparr>,
    \<lparr>name = ''get_chat'',
     description = ''Get information about a chat'',
     inputSchema = JObj [
            (''type'', JStr ''object''),
            (''properties'', JObj [
              (''chat_id'', JObj [
                (''type'', JStr ''string''),
                (''description'', JStr ''Chat ID or @username of the target chat'')])]),
            (''required'', JArr [JStr ''chat_id''])]\<rparr>,
    \<lparr>name = ''send_photo'',
     description = ''Send a photo to a Telegram chat'',
     inputSchema = JObj [
            (''type'', JStr ''object''),
            (''properties'', JObj [
              (''chat_id'', JObj [
                (''type'', JStr ''string''),
                (''description'', JStr ''Chat ID or @username of the target chat'')]),
              (''photo'', JObj [
                (''type'', JStr ''string''),
                (''description'', JStr ''URL or file path of the photo'')]),
              (''caption'', JObj [
                (''type'', JStr ''string''),
                (''description'', JStr ''Optional caption for the photo'')])]),
            (''required'', JArr [JStr ''chat_id'', JStr ''photo''])]\<rparr>,
    \<lparr>name = ''get_updates'',
     description = ''Get latest updates/messages from the bot'',
     inputSchema = JObj [
            (''type'', JStr ''object''),
            (''properties'', JObj [
              (''limit'', JObj [
                (''type'', JStr ''number''),
                (''description'', JStr ''Limit the number of updates to retrieve (default: 10)'')]),
              (''timeout'', JObj [
                (''type'', JStr ''number''),
                (''description'', JStr ''Timeout in seconds for long polling (default: 0)'')])])]\<rparr>]"

text \<open>
  The list-tools handler is \<open>async () => ({ tools: [...] })\<close>: it reads nothing and calls
  nothing.
\<close>

definition telegram_list_tools :: "('c \<Rightarrow> string + jsval) \<Rightarrow> 'c list \<times> tool list" where
  "telegram_list_tools tbot = ([], telegram_tools)"

datatype telegram_call =
    SendMessage jsval jsval jsval
  | GetChat jsval
  | SendPhoto jsval jsval jsval
  | GetUpdates jsval jsval

text \<open>
  The body of the \<open>try\<close> block of the call-tool handler: \<open>switch (request.params.name)\<close>.
  \<open>arguments\<close> is \<open>None\<close> when the request carries none (\<open>undefined\<close>).
\<close>

definition telegram_switch ::
  "js_runtime \<Rightarrow> (telegram_call \<Rightarrow> string + jsval) \<Rightarrow> string \<Rightarrow> jsobj option
     \<Rightarrow> telegram_call list \<times> outcome" where
  "telegram_switch rt tbot toolName arguments =
    (if toolName = ''send_message'' then
       (case arguments of
          None \<Rightarrow> ([], Inl (TypeError (cannot_destructure ''chat_id'')))
        | Some args \<Rightarrow>
            await tbot (SendMessage (js_get args ''chat_id'') (js_get args ''text'') (js_get args ''parse_mode''))
              (\<lambda>result. Inr (text_result (stringify rt 2 result))))
     else if toolName = ''get_chat'' then
       (case arguments of
          None \<Rightarrow> ([], Inl (TypeError (cannot_destructure ''chat_id'')))
        | Some args \<Rightarrow>
            await tbot (GetChat (js_get args ''chat_id''))
              (\<lambda>result. Inr (text_result (stringify rt 2 result))))
     else if toolName = ''send_photo'' then
       (case arguments of
          None \<Rightarrow> ([], Inl (TypeError (cannot_destructure ''chat_id'')))
        | Some args \<Rightarrow>
            await tbot (SendPhoto (js_get args ''chat_id'') (js_get args ''photo'') (js_get args ''caption''))
              (\<lambda>result. Inr (text_result (stringify rt 2 result))))
     else if toolName = ''get_updates'' then
       (case arguments of
          None \<Rightarrow> ([], Inl (TypeError (cannot_destructure ''limit'')))
        | Some args \<Rightarrow>
            await tbot (GetUpdates (default_to (js_get args ''limit'') (JNum 10))
                                  (default_to (js_get args ''timeout'') (JNum 0)))
              (\<lambda>result. Inr (text_result (stringify rt 2 result))))
     else ([], Inl (McpError MethodNotFound (''Unknown tool: '' @ toolName))))"

text \<open>
  The handler: whatever the \<open>try\<close> block throws is caught and thrown again as
  \<open>new McpError(ErrorCode.InternalError, `Telegram API error: ${error.message}`)\<close>.
\<close>

definition telegram_call_tool ::
  "js_runtime \<Rightarrow> (telegram_call \<Rightarrow> string + jsval) \<Rightarrow> string \<Rightarrow> jsobj option
     \<Rightarrow> telegram_call list \<times> outcome" where
  "telegram_call_tool rt tbot toolName arguments =
    (case telegram_switch rt tbot toolName arguments of
       (calls, Inl error) \<Rightarrow>
         (calls, Inl (McpError InternalError (''Telegram API error: '' @ message error)))
     | (calls, Inr result) \<Rightarrow> (calls, Inr result))"

section \<open>The RSS adapter\<close>

definition rss_tools :: "tool list" where
  "rss_tools = [
    \<lparr>name = ''fetch_feed'',
     description = ''Fetch and parse an RSS feed, returning metadata and recent items'',
     inputSchema = JObj [
            (''type'', JStr ''object''),
            (''properties'', JObj [
              (''url'', JObj [
                (''type'', JStr ''string''),
                (''description'', JStr ''URL of the RSS feed'')]),
              (''limit'', JObj [
                (''type'', JStr ''number''),
                (''description'', JStr ''Maximum number of items to return (default: 10)''),
                (''minimum'', JNum 1)])]),
            (''required'', JArr [JStr ''url''])]\<rparr>,
    \<lparr>name = ''get_feed_items'',
     description = ''Get items from an RSS feed with optional filtering'',
     inputSchema = JObj [
            (''type'', JStr ''object''),
            (''properties'', JObj [
              (''url'', JObj [
                (''type'', JStr ''string''),
                (''description'', JStr ''URL of the RSS feed'')]),
              (''limit'', JObj [
                (''type'', JStr ''number''),
                (''description'', JStr ''Maximum number of items to return (default: 10)''),
                (''minimum'', JNum 1)]),
              (''filter'', JObj [
                (''type'', JStr ''object''),
                (''properties'', JObj [
                  (''after'', JObj [
                    (''type'', JStr ''string''),
                    (''description'', JStr ''Only return items after this date (ISO 8601)'')]),
                  (''before'', JObj [
                    (''type'', JStr ''string''),
                    (''description'', JStr ''Only return items before this date (ISO 8601)'')]),
                  (''search'', JObj [
                    (''type'', JStr ''string''),
                    (''description'', JStr ''Search term to filter items by title/content'')])])])]),
            (''required'', JArr [JStr ''url''])]\<rparr>]"

definition rss_list_tools :: "('c \<Rightarrow> string + 'r) \<Rightarrow> 'c list \<times> tool list" where
  "rss_list_tools parseURL = ([], rss_tools)"

text \<open>
  What \<open>parser.parseURL\<close> resolves to, as the parser's typings give it: optional strings
  and the list of items.
\<close>

record Item =
  item_title :: "string option"
  item_link :: "string option"
  pubDate :: "string option"
  item_content :: "string option"
  contentSnippet :: "string option"

record feed =
  feed_title :: "string option"
  feed_description :: "string option"
  feed_link :: "string option"
  lastBuildDate :: "string option"
  items :: "Item list"

record FetchFeedArgs =
  url :: string
  limit :: "rat option"

record GetFeedItemsArgs = FetchFeedArgs +
  filter' :: jsval

definition opt_str :: "string option \<Rightarrow> jsval" where
  "opt_str s = (case s of None \<Rightarrow> JUndefined | Some t \<Rightarrow> JStr t)"

text \<open>The object literal each item is mapped to before it is serialised.\<close>

definition item_json :: "Item \<Rightarrow> jsval" where
  "item_json item = JObj [
     (''title'', opt_str (item_title item)),
     (''link'', opt_str (item_link item)),
     (''pubDate'', opt_str (pubDate item)),
     (''content'', opt_str (item_content item)),
     (''contentSnippet'', opt_str (contentSnippet item))]"

text \<open>\<open>ToIntegerOrInfinity\<close> on a finite number: truncation towards zero.\<close>

definition to_integer :: "rat \<Rightarrow> int" where
  "to_integer q = (if q < 0 then - \<lfloor>- q\<rfloor> else \<lfloor>q\<rfloor>)"

text \<open>\<open>xs.slice(0, n)\<close>: a negative end counts from the end of the array.\<close>

definition slice0 :: "'a list \<Rightarrow> rat \<Rightarrow> 'a list" where
  "slice0 xs n =
     (let k = to_integer n
      in if k < 0 then take (nat (int (length xs) + k)) xs else take (nat k) xs)"

text \<open>\<open>args.limit || 10\<close> on an optional number.\<close>

definition limit_or_10 :: "rat option \<Rightarrow> rat" where
  "limit_or_10 l = (case l of None \<Rightarrow> 10 | Some q \<Rightarrow> if q \<noteq> 0 then q else 10)"

text \<open>The object literal \<open>handleFetchFeed\<close> serialises.\<close>

definition feed_summary :: "feed \<Rightarrow> rat \<Rightarrow> jsval" where
  "feed_summary feed n = JObj [
     (''title'', opt_str (feed_title feed)),
     (''description'', opt_str (feed_description feed)),
     (''link'', opt_str (feed_link feed)),
     (''lastBuildDate'', opt_str (lastBuildDate feed)),
     (''items'', JArr (map item_json (slice0 (items feed) n)))]"

definition handleFetchFeed ::
  "js_runtime \<Rightarrow> (string \<Rightarrow> string + feed) \<Rightarrow> FetchFeedArgs \<Rightarrow> string list \<times> outcome" where
  "handleFetchFeed rt parseURL args =
    (case await parseURL (url args)
            (\<lambda>feed.
               let limit = limit_or_10 (limit args)
               in Inr (text_result (stringify rt 2 (feed_summary feed limit))))
     of
       (calls, Inl error) \<Rightarrow> (calls, Inr (error_result (''Failed to fetch feed: '' @ message error)))
     | (calls, Inr result) \<Rightarrow> (calls, Inr result))"

text \<open>\<open>s.includes(t)\<close>: \<open>t\<close> occurs in \<open>s\<close> as a contiguous substring.\<close>

primrec str_includes :: "string \<Rightarrow> string \<Rightarrow> bool" where
  "str_includes [] t = (t = [])"
| "str_includes (c # cs) t = (take (length t) (c # cs) = t \<or> str_includes cs t)"

text \<open>\<open>field?.toLowerCase().includes(search)\<close>, read as a condition.\<close>

definition field_includes :: "js_runtime \<Rightarrow> string option \<Rightarrow> string \<Rightarrow> bool" where
  "field_includes rt field search =
     (case field of None \<Rightarrow> False | Some t \<Rightarrow> str_includes (lower_case rt t) search)"

text \<open>\<open>new Date(item.pubDate || '')\<close>.\<close>

definition item_date :: "js_runtime \<Rightarrow> Item \<Rightarrow> rat option" where
  "item_date rt item =
     date_value rt (JStr (case pubDate item of None \<Rightarrow> [] | Some p \<Rightarrow> p))"

text \<open>\<open>a > b\<close> on two dates: false when either is invalid.\<close>

definition date_gt :: "rat option \<Rightarrow> rat option \<Rightarrow> bool" where
  "date_gt a b = (case a of None \<Rightarrow> False | Some x \<Rightarrow> (case b of None \<Rightarrow> False | Some y \<Rightarrow> x > y))"

text \<open>
  \<open>args.filter.k\<close> for a truthy \<open>args.filter\<close>, which is an object or an array (its
  \<open>typeof\<close> was \<open>'object'\<close>); an array has none of the three properties read.
\<close>

definition filter_prop :: "jsval \<Rightarrow> string \<Rightarrow> jsval" where
  "filter_prop f k = (case f of JObj kvs \<Rightarrow> js_get kvs k | _ \<Rightarrow> JUndefined)"

definition is_not_a_function :: string where
  "is_not_a_function = ''args.filter.search.toLowerCase is not a function''"

definition handleGetFeedItems ::
  "js_runtime \<Rightarrow> (string \<Rightarrow> string + feed) \<Rightarrow> GetFeedItemsArgs \<Rightarrow> string list \<times> outcome" where
  "handleGetFeedItems rt parseURL args =
    (case await parseURL (url args)
            (\<lambda>feed.
               let f = filter' args;
                   after = filter_prop f ''after'';
                   before = filter_prop f ''before'';
                   search = filter_prop f ''search'';
                   items1 = (if truthy f \<and> truthy after
                             then filter (\<lambda>item. date_gt (item_date rt item) (date_value rt after)) (items feed)
                             else items feed);
                   items2 = (if truthy f \<and> truthy before
                             then filter (\<lambda>item. date_gt (date_value rt before) (item_date rt item)) items1
                             else items1);
                   finish = (\<lambda>items3.
                      let limit = limit_or_10 (limit args)
                      in Inr (text_result (stringify rt 2 (JArr (map item_json (slice0 items3 limit))))))
               in if truthy f \<and> truthy search then
                    (case search of
                       JStr s \<Rightarrow>
                         finish (filter (\<lambda>item.
                                   field_includes rt (item_title item) (lower_case rt s)
                                 \<or> field_includes rt (item_content item) (lower_case rt s)
                                 \<or> field_includes rt (contentSnippet item) (lower_case rt s)) items2)
                     | _ \<Rightarrow> Inl (TypeError is_not_a_function))
                  else finish items2)
     of
       (calls, Inl error) \<Rightarrow> (calls, Inr (error_result (''Failed to fetch feed items: '' @ message error)))
     | (calls, Inr result) \<Rightarrow> (calls, Inr result))"

text \<open>\<open>args?.k\<close> on the request's optional arguments.\<close>

definition opt_get :: "jsobj option \<Rightarrow> string \<Rightarrow> jsval" where
  "opt_get arguments k = (case arguments of None \<Rightarrow> JUndefined | Some args \<Rightarrow> js_get args k)"

text \<open>\<open>typeof args?.limit === 'number' ? args.limit : undefined\<close>.\<close>

definition number_or_undefined :: "jsval \<Rightarrow> rat option" where
  "number_or_undefined v = (case v of JNum q \<Rightarrow> Some q | _ \<Rightarrow> None)"

text \<open>The call-tool handler: no \<open>try\<close> around the \<open>switch\<close>; the two handlers have their own.\<close>

definition rss_call_tool ::
  "js_runtime \<Rightarrow> (string \<Rightarrow> string + feed) \<Rightarrow> string \<Rightarrow> jsobj option \<Rightarrow> string list \<times> outcome" where
  "rss_call_tool rt parseURL toolName arguments =
    (if toolName = ''fetch_feed'' then
       (case opt_get arguments ''url'' of
          JStr u \<Rightarrow>
            handleFetchFeed rt parseURL
              \<lparr>url = u, limit = number_or_undefined (opt_get arguments ''limit'')\<rparr>
        | _ \<Rightarrow> ([], Inl (McpError InvalidParams ''URL is required and must be a string'')))
     else if toolName = ''get_feed_items'' then
       (case opt_get arguments ''url'' of
          JStr u \<Rightarrow>
            handleGetFeedItems rt parseURL
              \<lparr>url = u, limit = number_or_undefined (opt_get arguments ''limit''),
               filter' = (if typeof (opt_get arguments ''filter'') = ''object''
                          then opt_get arguments ''filter'' else JUndefined)\<rparr>
        | _ \<Rightarrow> ([], Inl (McpError InvalidParams ''URL is required and must be a string'')))
     else ([], Inl (McpError MethodNotFound (''Unknown tool: '' @ toolName))))"

section \<open>The Supabase adapter\<close>

definition supabase_tools :: "tool list" where
  "supabase_tools = [
    \<lparr>name = ''execute_sql'',
     description = ''Execute a raw SQL query'',
     inputSchema = JObj [
            (''type'', JStr ''object''),
            (''properties'', JObj [
              (''query'', JObj [
                (''type'', JStr ''string''),
                (''description'', JStr ''SQL query to execute'')])]),
            (''required'', JArr [JStr ''query''])]\<rparr>,
    \<lparr>name = ''query_data'',
     description = ''Query data from a Supabase table with optional filters'',
     inputSchema = JObj [
            (''type'', JStr ''object''),
            (''properties'', JObj [
              (''table'', JObj [
                (''type'', JStr ''string''),
                (''description'', JStr ''Name of the table to query'')]),
              (''select'', JObj [
                (''type'', JStr ''string''),
                (''description'', JStr ''Columns to select (comma-separated). Use * for all columns.'')]),
              (''filters'', JObj [
                (''type'', JStr ''object''),
                (''description'', JStr ''Optional filter conditions''),
                (''additionalProperties'', JBool True)]),
              (''limit'', JObj [
                (''type'', JStr ''number''),
                (''description'', JStr ''Maximum number of rows to return'')])]),
            (''required'', JArr [JStr ''table'', JStr ''select''])]\<rparr>,
    \<lparr>name = ''insert_data'',
     description = ''Insert data into a Supabase table'',
     inputSchema = JObj [
            (''type'', JStr ''object''),
            (''properties'', JObj [
              (''table'', JObj [
                (''type'', JStr ''string''),
                (''description'', JStr ''Name of the table to insert into'')]),
              (''data'', JObj [
                (''type'', JStr ''object''),
                (''description'', JStr ''Data to insert''),
                (''additionalProperties'', JBool True)])]),
            (''required'', JArr [JStr ''table'', JStr ''data''])]\<rparr>,
    \<lparr>name = ''update_data'',
     description = ''Update data in a Supabase table'',
     inputSchema = JObj [
            (''type'', JStr ''object''),
            (''properties'', JObj [
              (''table'', JObj [
                (''type'', JStr ''string''),
                (''description'', JStr ''Name of the table to update'')]),
              (''data'', JObj [
                (''type'', JStr ''object''),
                (''description'', JStr ''Data to update''),
                (''additionalProperties'', JBool True)]),
              (''filters'', JObj [
                (''type'', JStr ''object''),
                (''description'', JStr ''Filter conditions to identify rows to update''),
                (''additionalProperties'', JBool True)])]),
            (''required'', JArr [JStr ''table'', JStr ''data'', JStr ''filters''])]\<rparr>,
    \<lparr>name = ''delete_data'',
     description = ''Delete data from a Supabase table'',
     inputSchema = JObj [
            (''type'', JStr ''object''),
            (''properties'', JObj [
              (''table'', JObj [
                (''type'', JStr ''string''),
                (''description'', JStr ''Name of the table to delete from'')]),
              (''filters'', JObj [
                (''type'', JStr ''object''),
                (''description'', JStr ''Filter conditions to identify rows to delete''),
                (''additionalProperties'', JBool True)])]),
            (''required'', JArr [JStr ''table'', JStr ''filters''])]\<rparr>,
    \<lparr>name = ''rpc'',
     description = ''Call a Postgres function (RPC)'',
     inputSchema = JObj [
            (''type'', JStr ''object''),
            (''properties'', JObj [
              (''function'', JObj [
                (''type'', JStr ''string''),
                (''description'', JStr ''Name of the function to call'')]),
              (''params'', JObj [
                (''type'', JStr ''object''),
                (''description'', JStr ''Parameters to pass to the function''),
                (''additionalProperties'', JBool True)])]),
            (''required'', JArr [JStr ''function''])]\<rparr>]"

definition supabase_list_tools :: "('c \<Rightarrow> string + 'r) \<Rightarrow> 'c list \<times> tool list" where
  "supabase_list_tools supabase = ([], supabase_tools)"

text \<open>
  The query the client is asked to run when the builder is awaited: the table and the
  operation, the \<open>eq\<close> filters in the order they were added, and the \<open>limit\<close> when
  \<open>query.limit\<close> was called. Awaiting resolves to \<open>{ data, error }\<close>; the oracle gives
  the message of a truthy \<open>error\<close> (which the handler throws) or \<open>data\<close>.
\<close>

datatype supabase_call =
    Select jsval jsval "(string \<times> jsval) list" "jsval option"
  | Insert jsval jsval
  | Update jsval jsval "(string \<times> jsval) list"
  | Delete jsval "(string \<times> jsval) list"
  | Rpc jsval jsval

definition digit_char :: "nat \<Rightarrow> char" where
  "digit_char d = char_of (48 + d)"

function string_of_nat :: "nat \<Rightarrow> string" where
  "string_of_nat n =
     (if n < 10 then [digit_char n] else string_of_nat (n div 10) @ [digit_char (n mod 10)])"
  by pat_completeness auto
termination
  by (relation "measure id") auto

text \<open>
  \<open>Object.entries(v)\<close>: the own properties of an object, the indexed elements of an array
  or the indexed characters of a string, nothing for a number or a boolean, and a
  \<open>TypeError\<close> for \<open>null\<close> and \<open>undefined\<close>. The entries of an object are given in the order
  of its list.
\<close>

definition object_entries :: "jsval \<Rightarrow> js_error + (string \<times> jsval) list" where
  "object_entries v =
     (case v of
        JUndefined \<Rightarrow> Inl (TypeError ''Cannot convert undefined or null to object'')
      | JNull \<Rightarrow> Inl (TypeError ''Cannot convert undefined or null to object'')
      | JBool b \<Rightarrow> Inr []
      | JNum q \<Rightarrow> Inr []
      | JStr s \<Rightarrow> Inr (zip (map string_of_nat [0..<length s]) (map (\<lambda>c. JStr [c]) s))
      | JArr xs \<Rightarrow> Inr (zip (map string_of_nat [0..<length xs]) xs)
      | JObj kvs \<Rightarrow> Inr (AList.clearjunk kvs))"

text \<open>The body of the \<open>try\<close> block: \<open>switch (request.params.name)\<close>.\<close>

definition supabase_switch ::
  "js_runtime \<Rightarrow> (supabase_call \<Rightarrow> string + jsval) \<Rightarrow> string \<Rightarrow> jsobj option
     \<Rightarrow> supabase_call list \<times> outcome" where
  "supabase_switch rt supabase toolName arguments =
    (if toolName = ''query_data'' then
       (case arguments of
          None \<Rightarrow> ([], Inl (TypeError (cannot_destructure ''table'')))
        | Some args \<Rightarrow>
            (case object_entries (default_to (js_get args ''filters'') (JObj [])) of
               Inl error \<Rightarrow> ([], Inl error)
             | Inr filters \<Rightarrow>
                 await supabase
                   (Select (js_get args ''table'') (js_get args ''select'') filters
                      (if truthy (js_get args ''limit'') then Some (js_get args ''limit'') else None))
                   (\<lambda>data. Inr (text_result (stringify rt 2 data)))))
     else if toolName = ''insert_data'' then
       (case arguments of
          None \<Rightarrow> ([], Inl (TypeError (cannot_destructure ''table'')))
        | Some args \<Rightarrow>
            await supabase (Insert (js_get args ''table'') (js_get args ''data''))
              (\<lambda>result. Inr (text_result (stringify rt 2 result))))
     else if toolName = ''update_data'' then
       (case arguments of
          None \<Rightarrow> ([], Inl (TypeError (cannot_destructure ''table'')))
        | Some args \<Rightarrow>
            (case object_entries (js_get args ''filters'') of
               Inl error \<Rightarrow> ([], Inl error)
             | Inr filters \<Rightarrow>
                 await supabase (Update (js_get args ''table'') (js_get args ''data'') filters)
                   (\<lambda>result. Inr (text_result (stringify rt 2 result)))))
     else if toolName = ''delete_data'' then
       (case arguments of
          None \<Rightarrow> ([], Inl (TypeError (cannot_destructure ''table'')))
        | Some args \<Rightarrow>
            (case object_entries (js_get args ''filters'') of
               Inl error \<Rightarrow> ([], Inl error)
             | Inr filters \<Rightarrow>
                 await supabase (Delete (js_get args ''table'') filters)
                   (\<lambda>result. Inr (text_result (stringify rt 2 result)))))
     else if toolName = ''rpc'' then
       (case arguments of
          None \<Rightarrow> ([], Inl (TypeError (cannot_destructure ''function'')))
        | Some args \<Rightarrow>
            await supabase (Rpc (js_get args ''function'') (default_to (js_get args ''params'') (JObj [])))
              (\<lambda>data. Inr (text_result (stringify rt 2 data))))
     else if toolName = ''execute_sql'' then
       (case arguments of
          None \<Rightarrow> ([], Inl (TypeError (cannot_destructure ''query'')))
        | Some args \<Rightarrow>
            await supabase (Select (JStr ''_sql'') (JStr (js_String rt (js_get args ''query''))) [] None)
              (\<lambda>data. Inr (text_result (stringify rt 2 data))))
     else ([], Inl (McpError MethodNotFound (''Unknown tool: '' @ toolName))))"

text \<open>
  The handler: whatever the \<open>try\<close> block throws is caught and returned as
  \<open>{ content: [{ type: 'text', text: `Error: ${error.message}` }], isError: true }\<close>.
\<close>

definition supabase_call_tool ::
  "js_runtime \<Rightarrow> (supabase_call \<Rightarrow> string + jsval) \<Rightarrow> string \<Rightarrow> jsobj option
     \<Rightarrow> supabase_call list \<times> outcome" where
  "supabase_call_tool rt supabase toolName arguments =
    (case supabase_switch rt supabase toolName arguments of
       (calls, Inl error) \<Rightarrow> (calls, Inr (error_result (''Error: '' @ message error)))
     | (calls, Inr result) \<Rightarrow> (calls, Inr result))"

section \<open>The Bluesky adapter\<close>

definition getProfileTool :: tool where
  "getProfileTool =
    \<lparr>name = ''bluesky_get_profile'',
     description = ''Get a user's profile information'',
     inputSchema = JObj [(''type'', JStr ''object''), (''properties'', JObj [])]\<rparr>"

definition getPostsTool :: tool where
  "getPostsTool =
    \<lparr>name = ''bluesky_get_posts'',
     description = ''Get recent posts from a user'',
     inputSchema = JObj [
            (''type'', JStr ''object''),
            (''properties'', JObj [
              (''limit'', JObj [
                (''type'', JStr ''number''),
                (''description'', JStr ''Maximum number of posts to return (default 50, max 100)''),
                (''default'', JNum 50)]),
              (''cursor'', JObj [
                (''type'', JStr ''string''),
                (''description'', JStr ''Pagination cursor for next page of results'')])])]\<rparr>"

definition searchPostsTool :: tool where
  "searchPostsTool =
    \<lparr>name = ''bluesky_search_posts'',
     description = ''Search for posts on Bluesky'',
     inputSchema = JObj [
            (''type'', JStr ''object''),
            (''properties'', JObj [
              (''query'', JObj [(''type'', JStr ''string''), (''description'', JStr ''The search query'')]),
              (''limit'', JObj [
                (''type'', JStr ''number''),
                (''description'', JStr ''Maximum number of posts to return (default 25, max 100)''),
                (''default'', JNum 25)]),
              (''cursor'', JObj [
                (''type'', JStr ''string''),
                (''description'', JStr ''Pagination cursor for next page of results'')])]),
            (''required'', JArr [JStr ''query''])]\<rparr>"

definition getFollowsTool :: tool where
  "getFollowsTool =
    \<lparr>name = ''bluesky_get_follows'',
     description = ''Get a list of accounts the user follows'',
     inputSchema = JObj [
            (''type'', JStr ''object''),
            (''properties'', JObj [
              (''limit'', JObj [
                (''type'', JStr ''number''),
                (''description'', JStr ''Maximum number of follows to return (default 50, max 100)''),
                (''default'', JNum 50)]),
              (''cursor'', JObj [
                (''type'', JStr ''string''),
                (''description'', JStr ''Pagination cursor for next page of results'')])])]\<rparr>"

definition getFollowersTool :: tool where
  "getFollowersTool =
    \<lparr>name = ''bluesky_get_followers'',
     description = ''Get a list of accounts following the user'',
     inputSchema = JObj [
            (''type'', JStr ''object''),
            (''properties'', JObj [
              (''limit'', JObj [
                (''type'', JStr ''number''),
                (''description'', JStr ''Maximum number of followers to return (default 50, max 100)''),
                (''default'', JNum 50)]),
              (''cursor'', JObj [
                (''type'', JStr ''string''),
                (''description'', JStr ''Pagination cursor for next page of results'')])])]\<rparr>"

definition getLikedPostsTool :: tool where
  "getLikedPostsTool =
    \<lparr>name = ''bluesky_get_liked_posts'',
     description = ''Get a list of posts liked by the user'',
     inputSchema = JObj [
            (''type'', JStr ''object''),
            (''properties'', JObj [
              (''limit'', JObj [
                (''type'', JStr ''number''),
                (''description'', JStr ''Maximum number of liked posts to return (default 50, max 100)''),
                (''default'', JNum 50)]),
              (''cursor'', JObj [
                (''type'', JStr ''string''),
                (''description'', JStr ''Pagination cursor for next page of results'')])])]\<rparr>"

definition getPersonalFeedTool :: tool where
  "getPersonalFeedTool =
    \<lparr>name = ''bluesky_get_personal_feed'',
     description = ''Get your personalized Bluesky feed'',
     inputSchema = JObj [
            (''type'', JStr ''object''),
            (''properties'', JObj [
              (''limit'', JObj [
                (''type'', JStr ''number''),
                (''description'', JStr ''Maximum number of feed items to return (default 50, max 100)''),
                (''default'', JNum 50)]),
              (''cursor'', JObj [
                (''type'', JStr ''string''),
                (''description'', JStr ''Pagination cursor for next page of results'')])])]\<rparr>"

definition searchProfilesTool :: tool where
  "searchProfilesTool =
    \<lparr>name = ''bluesky_search_profiles'',
     description = ''Search for Bluesky profiles'',
     inputSchema = JObj [
            (''type'', JStr ''object''),
            (''properties'', JObj [
              (''query'', JObj [
                (''type'', JStr ''string''),
                (''description'', JStr ''Search query string'')]),
              (''limit'', JObj [
                (''type'', JStr ''number''),
                (''description'', JStr ''Maximum number of results to return (default 25, max 100)''),
                (''default'', JNum 25)]),
              (''cursor'', JObj [
                (''type'', JStr ''string''),
                (''description'', JStr ''Pagination cursor for next page of results'')])]),
            (''required'', JArr [JStr ''query''])]\<rparr>"

definition bluesky_tools :: "tool list" where
  "bluesky_tools =
     [getProfileTool, getPostsTool, searchPostsTool, getFollowsTool, getFollowersTool,
      getLikedPostsTool, getPersonalFeedTool, searchProfilesTool]"

definition bluesky_list_tools :: "('c \<Rightarrow> string + 'r) \<Rightarrow> 'c list \<times> tool list" where
  "bluesky_list_tools agent = ([], bluesky_tools)"

text \<open>
  The calls on the agent. The actor is the identifier the process was started with; limit
  and cursor are passed as the request gave them.
\<close>

datatype bluesky_call =
    GetProfile string
  | GetAuthorFeed string jsval jsval
  | SearchPosts jsval jsval jsval
  | GetFollows string jsval jsval
  | GetFollowers string jsval jsval
  | GetActorLikes string jsval jsval
  | GetTimeline jsval jsval
  | SearchActors jsval jsval jsval

text \<open>
  A property read \<open>v.k\<close> on any value: a \<open>TypeError\<close> on \<open>null\<close> and \<open>undefined\<close>, the
  property of an object, and \<open>undefined\<close> otherwise (the key read below, \<open>data\<close>, is no
  built-in property).
\<close>

definition js_prop :: "jsval \<Rightarrow> string \<Rightarrow> js_error + jsval" where
  "js_prop v k =
     (case v of
        JUndefined \<Rightarrow> Inl (TypeError (''Cannot read properties of undefined (reading '' @ [CHR 0x27] @ k @ [CHR 0x27] @ '')''))
      | JNull \<Rightarrow> Inl (TypeError (''Cannot read properties of null (reading '' @ [CHR 0x27] @ k @ [CHR 0x27] @ '')''))
      | JObj kvs \<Rightarrow> Inr (js_get kvs k)
      | _ \<Rightarrow> Inr JUndefined)"

definition bluesky_switch ::
  "js_runtime \<Rightarrow> string \<Rightarrow> (bluesky_call \<Rightarrow> string + jsval) \<Rightarrow> string \<Rightarrow> jsobj option
     \<Rightarrow> bluesky_call list \<times> outcome" where
  "bluesky_switch rt blueskyIdentifier agent toolName arguments =
    (case arguments of
       None \<Rightarrow> ([], Inl (Error ''No arguments provided''))
     | Some args \<Rightarrow>
        (if toolName = ''bluesky_get_profile'' then
           await agent (GetProfile blueskyIdentifier)
             (\<lambda>response. Inr (text_result (stringify rt 0 response)))
         else if toolName = ''bluesky_get_posts'' then
           await agent (GetAuthorFeed blueskyIdentifier (js_get args ''limit'') (js_get args ''cursor''))
             (\<lambda>response. Inr (text_result (stringify rt 0 response)))
         else if toolName = ''bluesky_search_posts'' then
           (if \<not> truthy (js_get args ''query'') then ([], Inl (Error ''Missing required argument: query''))
            else
              await agent (SearchPosts (js_get args ''query'') (js_get args ''limit'') (js_get args ''cursor''))
                (\<lambda>response. Inr (text_result (stringify rt 0 response))))
         else if toolName = ''bluesky_get_follows'' then
           await agent (GetFollows blueskyIdentifier (js_get args ''limit'') (js_get args ''cursor''))
             (\<lambda>response. Inr (text_result (stringify rt 0 response)))
         else if toolName = ''bluesky_get_followers'' then
           await agent (GetFollowers blueskyIdentifier (js_get args ''limit'') (js_get args ''cursor''))
             (\<lambda>response. Inr (text_result (stringify rt 0 response)))
         else if toolName = ''bluesky_get_liked_posts'' then
           await agent (GetActorLikes blueskyIdentifier (js_get args ''limit'') (js_get args ''cursor''))
             (\<lambda>response. Inr (text_result (stringify rt 0 response)))
         else if toolName = ''bluesky_get_personal_feed'' then
           await agent (GetTimeline (js_get args ''limit'') (js_get args ''cursor''))
             (\<lambda>response. Inr (text_result (stringify rt 0 response)))
         else if toolName = ''bluesky_search_profiles'' then
           (if \<not> truthy (js_get args ''query'') then ([], Inl (Error ''Missing required argument: query''))
            else
              await agent (SearchActors (js_get args ''query'') (js_get args ''limit'') (js_get args ''cursor''))
                (\<lambda>response.
                   case js_prop response ''data'' of
                     Inl error \<Rightarrow> Inl error
                   | Inr d \<Rightarrow> Inr (text_result (stringify rt 0 d))))
         else ([], Inl (Error (''Unknown tool: '' @ toolName)))))"

text \<open>
  The handler: whatever the \<open>try\<close> block throws is caught and returned as
  \<open>{ content: [{ type: 'text', text: JSON.stringify({ error: error.message }) }] }\<close>, an
  object literal with no \<open>isError\<close> property.
\<close>

definition bluesky_call_tool ::
  "js_runtime \<Rightarrow> string \<Rightarrow> (bluesky_call \<Rightarrow> string + jsval) \<Rightarrow> string \<Rightarrow> jsobj option
     \<Rightarrow> bluesky_call list \<times> outcome" where
  "bluesky_call_tool rt blueskyIdentifier agent toolName arguments =
    (case bluesky_switch rt blueskyIdentifier agent toolName arguments of
       (calls, Inl error) \<Rightarrow>
         (calls, Inr (text_result (stringify rt 0 (JObj [(''error'', JStr (message error))]))))
     | (calls, Inr result) \<Rightarrow> (calls, Inr result))"

section \<open>The Shortcuts adapter\<close>

definition TOOLS :: "tool list" where
  "TOOLS = [
    \<lparr>name = ''run_shortcut'',
     description = ''Run a Shortcuts automation by name'',
     inputSchema = JObj [
            (''type'', JStr ''object''),
            (''properties'', JObj [
              (''name'', JObj [
                (''type'', JStr ''string''),
                (''description'', JStr ''Name of the shortcut to run'')]),
              (''input'', JObj [
                (''type'', JStr ''string''),
                (''description'', JStr ''Optional input to pass to the shortcut'')])]),
            (''required'', JArr [JStr ''name''])]\<rparr>,
    \<lparr>name = ''list_shortcuts'',
     description = ''List all available shortcuts'',
     inputSchema = JObj [(''type'', JStr ''object''), (''properties'', JObj [])]\<rparr>]"

text \<open>
  The list-tools handler returns the constant \<open>TOOLS\<close>; it neither reads nor assigns the
  module's variable \<open>availableShortcuts\<close> (declared below \<open>TOOLS\<close> in the source), which
  is passed in and returned.
\<close>

definition shortcuts_list_tools ::
  "('c \<Rightarrow> string + 'r) \<Rightarrow> string list \<Rightarrow> 'c list \<times> string list \<times> tool list" where
  "shortcuts_list_tools exec availableShortcuts = ([], availableShortcuts, TOOLS)"

text \<open>\<open>s.split("\n")\<close> for the separator character.\<close>

fun split_on :: "char \<Rightarrow> string \<Rightarrow> string list" where
  "split_on sep [] = [[]]"
| "split_on sep (x # xs) =
     (if x = sep then [] # split_on sep xs
      else (case split_on sep xs of [] \<Rightarrow> [[x]] | y # ys \<Rightarrow> (x # y) # ys))"

text \<open>
  \<open>s.trim()\<close>. Strings are byte strings here, and the white space removed is the ASCII
  part of JavaScript's: tab, line feed, vertical tab, form feed, carriage return, space.
\<close>

definition is_space :: "char \<Rightarrow> bool" where
  "is_space c = (c = CHR 0x09 \<or> c = CHR 0x0A \<or> c = CHR 0x0B \<or> c = CHR 0x0C \<or> c = CHR 0x0D \<or> c = CHR 0x20)"

definition trim :: "string \<Rightarrow> string" where
  "trim s = rev (dropWhile is_space (rev (dropWhile is_space s)))"

text \<open>
  The external process is an oracle from the command line to the message of the error
  \<open>execSync\<close> throws (a non-zero exit among its causes) or the standard output.
  \<open>updateShortcutsList\<close> assigns the module's variable \<open>availableShortcuts\<close>; the model
  returns the commands run and the value assigned.
\<close>

definition updateShortcutsList :: "(string \<Rightarrow> string + string) \<Rightarrow> string list \<times> string list" where
  "updateShortcutsList exec =
     (case exec ''shortcuts list'' of
        Inr stdout \<Rightarrow>
          ([''shortcuts list''],
           filter (\<lambda>line. length line > 0) (map trim (split_on (CHR 0x0A) stdout)))
      | Inl error \<Rightarrow> ([''shortcuts list''], []))"

text \<open>
  \<open>handleToolCall(name, args)\<close>, with the variable \<open>availableShortcuts\<close> passed in and
  returned. It has no path that throws.
\<close>

definition handleToolCall ::
  "js_runtime \<Rightarrow> (string \<Rightarrow> string + string) \<Rightarrow> string list \<Rightarrow> string \<Rightarrow> jsobj
     \<Rightarrow> string list \<times> string list \<times> call_tool_result" where
  "handleToolCall rt exec availableShortcuts toolName args =
    (if toolName = ''list_shortcuts'' then
       (case updateShortcutsList exec of
          (calls, available) \<Rightarrow>
            (calls, available,
             \<lparr>content = [\<lparr>type = ''text'',
                          text' = ''Available shortcuts:'' @ [CHR 0x0A] @ join_with [CHR 0x0A] available\<rparr>],
              isError = Some False\<rparr>))
     else if toolName = ''run_shortcut'' then
       (let command =
              (if truthy (js_get args ''input'')
               then ''shortcuts run '' @ [CHR 0x22] @ js_String rt (js_get args ''name'') @ [CHR 0x22]
                      @ '' -i '' @ [CHR 0x22] @ js_String rt (js_get args ''input'') @ [CHR 0x22]
               else ''shortcuts run '' @ [CHR 0x22] @ js_String rt (js_get args ''name'') @ [CHR 0x22])
        in case exec command of
             Inr stdout \<Rightarrow>
               ([command], availableShortcuts,
                \<lparr>content = [\<lparr>type = ''text'',
                             text' = (if stdout \<noteq> [] then stdout else ''Shortcut executed successfully'')\<rparr>],
                 isError = Some False\<rparr>)
           | Inl error \<Rightarrow>
               ([command], availableShortcuts, error_result (''Failed to run shortcut: '' @ error)))
     else ([], availableShortcuts, error_result (''Unknown tool: '' @ toolName)))"

text \<open>
  The call-tool handler: \<open>handleToolCall(request.params.name, request.params.arguments ?? {})\<close>.
  The result is returned; nothing is thrown.
\<close>

definition shortcuts_call_tool ::
  "js_runtime \<Rightarrow> (string \<Rightarrow> string + string) \<Rightarrow> string list \<Rightarrow> string \<Rightarrow> jsobj option
     \<Rightarrow> string list \<times> string list \<times> outcome" where
  "shortcuts_call_tool rt exec availableShortcuts toolName arguments =
     (case handleToolCall rt exec availableShortcuts toolName
             (case arguments of None \<Rightarrow> [] | Some args \<Rightarrow> args) of
        (calls, available, result) \<Rightarrow> (calls, available, Inr result))"

section \<open>The Obsidian adapter\<close>

definition obsidian_tools :: "tool list" where
  "obsidian_tools = [
    \<lparr>name = ''read_note'',
     description = ''Read a note from the Obsidian vault'',
     inputSchema = JObj [
            (''type'', JStr ''object''),
            (''properties'', JObj [
              (''path'', JObj [
                (''type'', JStr ''string''),
                (''description'', JStr ''Path to the note relative to vault root'')])]),
            (''required'', JArr [JStr ''path''])]\<rparr>,
    \<lparr>name = ''write_note'',
     description = ''Write a note to the Obsidian vault'',
     inputSchema = JObj [
            (''type'', JStr ''object''),
            (''properties'', JObj [
              (''path'', JObj [
                (''type'', JStr ''string''),
                (''description'', JStr ''Path to the note relative to vault root'')]),
              (''content'', JObj [
                (''type'', JStr ''string''),
                (''description'', JStr ''Note content in markdown format'')]),
              (''frontmatter'', JObj [
                (''type'', JStr ''object''),
                (''description'', JStr ''Optional YAML frontmatter'')])]),
            (''required'', JArr [JStr ''path'', JStr ''content''])]\<rparr>,
    \<lparr>name = ''search_notes'',
     description = ''Search notes in the Obsidian vault'',
     inputSchema = JObj [
            (''type'', JStr ''object''),
            (''properties'', JObj [
              (''query'', JObj [(''type'', JStr ''string''), (''description'', JStr ''Search query'')])]),
            (''required'', JArr [JStr ''query''])]\<rparr>]"

definition obsidian_list_tools :: "('c \<Rightarrow> string + 'r) \<Rightarrow> 'c list \<times> tool list" where
  "obsidian_list_tools vault = ([], obsidian_tools)"

text \<open>
  The vault is reached through the private methods \<open>readNote\<close>, \<open>writeNote\<close> and
  \<open>searchNotes\<close>, which wrap the file system; they are the Backing Capability of this
  adapter, an oracle from the call to the message of the error raised or the value
  resolved (\<open>undefined\<close> for \<open>writeNote\<close>).
\<close>

datatype obsidian_call =
    ReadNote jsval
  | WriteNote jsval jsval jsval
  | SearchNotes jsval

definition obsidian_switch ::
  "js_runtime \<Rightarrow> (obsidian_call \<Rightarrow> string + jsval) \<Rightarrow> string \<Rightarrow> jsobj option
     \<Rightarrow> obsidian_call list \<times> outcome" where
  "obsidian_switch rt vault toolName arguments =
    (if toolName = ''read_note'' then
       (case arguments of
          None \<Rightarrow> ([], Inl (TypeError (cannot_destructure ''path'')))
        | Some args \<Rightarrow>
            await vault (ReadNote (js_get args ''path''))
              (\<lambda>note. Inr (text_result (stringify rt 2 note))))
     else if toolName = ''write_note'' then
       (case arguments of
          None \<Rightarrow> ([], Inl (TypeError (cannot_destructure ''path'')))
        | Some args \<Rightarrow>
            await vault (WriteNote (js_get args ''path'') (js_get args ''content'') (js_get args ''frontmatter''))
              (\<lambda>written. Inr (text_result (''Note written successfully to '' @ js_String rt (js_get args ''path'')))))
     else if toolName = ''search_notes'' then
       (case arguments of
          None \<Rightarrow> ([], Inl (TypeError (cannot_destructure ''query'')))
        | Some args \<Rightarrow>
            await vault (SearchNotes (js_get args ''query''))
              (\<lambda>notes. Inr (text_result (stringify rt 2 notes))))
     else ([], Inl (McpError MethodNotFound (''Unknown tool: '' @ toolName))))"

text \<open>
  The handler: a caught \<open>McpError\<close> is thrown again as it is, any other error as
  \<open>new McpError(ErrorCode.InternalError, error.message)\<close>.
\<close>

definition obsidian_call_tool ::
  "js_runtime \<Rightarrow> (obsidian_call \<Rightarrow> string + jsval) \<Rightarrow> string \<Rightarrow> jsobj option
     \<Rightarrow> obsidian_call list \<times> outcome" where
  "obsidian_call_tool rt vault toolName arguments =
    (case obsidian_switch rt vault toolName arguments of
       (calls, Inl error) \<Rightarrow>
         (case error of
            McpError c m \<Rightarrow> (calls, Inl error)
          | _ \<Rightarrow> (calls, Inl (McpError InternalError (message error))))
     | (calls, Inr result) \<Rightarrow> (calls, Inr result))"

section \<open>The simulator adapter\<close>

text \<open>
  The adapter declares its input shapes as schema objects, each field a described string,
  and advertises \<open>zodToJsonSchema(schema)\<close>, a library function taken as a parameter.
\<close>

type_synonym zod_object = "(string \<times> string) list"

definition ListSimulatorsSchema :: zod_object where
  "ListSimulatorsSchema = []"

definition BootSimulatorSchema :: zod_object where
  "BootSimulatorSchema = [(''deviceId'', ''The UDID of the simulator to boot'')]"

definition ShutdownSimulatorSchema :: zod_object where
  "ShutdownSimulatorSchema = [(''deviceId'', ''The UDID of the simulator to shutdown'')]"

definition InstallAppSchema :: zod_object where
  "InstallAppSchema =
     [(''deviceId'', ''The UDID of the target simulator''),
      (''appPath'', ''Path to the .app bundle to install'')]"

definition LaunchAppSchema :: zod_object where
  "LaunchAppSchema =
     [(''deviceId'', ''The UDID of the target simulator''),
      (''bundleId'', ''Bundle identifier of the app to launch'')]"

definition simulator_tools :: "(zod_object \<Rightarrow> jsval) \<Rightarrow> tool list" where
  "simulator_tools zodToJsonSchema = [
    \<lparr>name = ''list_simulators'',
     description = ''List all available iOS simulators'',
     inputSchema = zodToJsonSchema ListSimulatorsSchema\<rparr>,
    \<lparr>name = ''boot_simulator'',
     description = ''Boot an iOS simulator'',
     inputSchema = zodToJsonSchema BootSimulatorSchema\<rparr>,
    \<lparr>name = ''shutdown_simulator'',
     description = ''Shutdown an iOS simulator'',
     inputSchema = zodToJsonSchema ShutdownSimulatorSchema\<rparr>,
    \<lparr>name = ''install_app'',
     description = ''Install an app on a simulator'',
     inputSchema = zodToJsonSchema InstallAppSchema\<rparr>,
    \<lparr>name = ''launch_app'',
     description = ''Launch an installed app on a simulator'',
     inputSchema = zodToJsonSchema LaunchAppSchema\<rparr>]"

definition simulator_list_tools ::
  "(zod_object \<Rightarrow> jsval) \<Rightarrow> ('c \<Rightarrow> string + 'r) \<Rightarrow> 'c list \<times> tool list" where
  "simulator_list_tools zodToJsonSchema execAsync = ([], simulator_tools zodToJsonSchema)"

text \<open>
  \<open>schema.parse(args)\<close> for a schema whose fields are all required strings: the object
  of the declared fields when each is a string, and otherwise a \<open>ZodError\<close>, whose message
  the library composes (\<open>zod_message\<close>). Only the handler's \<open>catch\<close> sees the \<open>ZodError\<close>:
  it throws \<open>new Error(`Invalid arguments: ${error.message}`)\<close> in its place.
\<close>

definition zod_parse :: "(zod_object \<Rightarrow> jsobj \<Rightarrow> string) \<Rightarrow> zod_object \<Rightarrow> jsobj \<Rightarrow> js_error + jsobj" where
  "zod_parse zod_message schema args =
     (if list_all (\<lambda>field. typeof (js_get args (fst field)) = ''string'') schema
      then Inr (map (\<lambda>field. (fst field, js_get args (fst field))) schema)
      else Inl (Error (''Invalid arguments: '' @ zod_message schema args)))"

text \<open>\<open>s.replace(pattern, replacement)\<close> with a string pattern: the first occurrence.\<close>

fun replace_first :: "string \<Rightarrow> string \<Rightarrow> string \<Rightarrow> string" where
  "replace_first pattern replacement [] = (if pattern = [] then replacement else [])"
| "replace_first pattern replacement (c # cs) =
     (if take (length pattern) (c # cs) = pattern
      then replacement @ drop (length pattern) (c # cs)
      else c # replace_first pattern replacement cs)"

text \<open>A loop body that may throw, run over a list: the first error ends the loop.\<close>

fun for_each :: "('a \<Rightarrow> js_error + 'b) \<Rightarrow> 'a list \<Rightarrow> js_error + 'b list" where
  "for_each f [] = Inr []"
| "for_each f (x # xs) =
     (case f x of
        Inl error \<Rightarrow> Inl error
      | Inr y \<Rightarrow> (case for_each f xs of Inl error \<Rightarrow> Inl error | Inr ys \<Rightarrow> Inr (y # ys)))"

text \<open>
  The body of \<open>deviceList.forEach\<close> in \<open>listDevices\<close>: the object pushed for one device
  of a runtime.
\<close>

definition device_entry :: "string \<Rightarrow> jsval \<Rightarrow> js_error + jsval" where
  "device_entry runtime device =
     (case js_prop device ''udid'' of
        Inl error \<Rightarrow> Inl error
      | Inr udid \<Rightarrow>
          (case js_prop device ''name'' of
             Inl error \<Rightarrow> Inl error
           | Inr device_name \<Rightarrow>
               (case js_prop device ''state'' of
                  Inl error \<Rightarrow> Inl error
                | Inr state \<Rightarrow>
                    Inr (JObj [(''udid'', udid), (''name'', device_name), (''state'', state),
                               (''runtime'',
                                JStr (replace_first ''com.apple.CoreSimulator.SimRuntime.'' [] runtime))]))))"

text \<open>The body of the outer \<open>forEach\<close>: the devices of one \<open>[runtime, deviceList]\<close> entry.\<close>

definition runtime_devices :: "string \<times> jsval \<Rightarrow> js_error + jsval list" where
  "runtime_devices entry =
     (case snd entry of
        JArr deviceList \<Rightarrow> for_each (device_entry (fst entry)) deviceList
      | JUndefined \<Rightarrow> Inl (TypeError (''Cannot read properties of undefined (reading '' @ [CHR 0x27] @ ''forEach'' @ [CHR 0x27] @ '')''))
      | JNull \<Rightarrow> Inl (TypeError (''Cannot read properties of null (reading '' @ [CHR 0x27] @ ''forEach'' @ [CHR 0x27] @ '')''))
      | _ \<Rightarrow> Inl (TypeError ''deviceList.forEach is not a function''))"

text \<open>
  \<open>SimulatorService\<close>. The external process behind \<open>execAsync\<close> is an oracle from the
  command line to the message of the error raised (a non-zero exit among its causes) or
  the standard output.
\<close>

definition listDevices ::
  "js_runtime \<Rightarrow> (string \<Rightarrow> string + string) \<Rightarrow> string list \<times> (js_error + jsval list)" where
  "listDevices rt execAsync =
     await execAsync ''xcrun simctl list devices --json''
       (\<lambda>stdout.
          case json_parse rt stdout of
            Inl syntax_error \<Rightarrow> Inl (Error syntax_error)
          | Inr result \<Rightarrow>
              (case js_prop result ''devices'' of
                 Inl error \<Rightarrow> Inl error
               | Inr devices \<Rightarrow>
                   (case object_entries devices of
                      Inl error \<Rightarrow> Inl error
                    | Inr entries \<Rightarrow>
                        (case for_each runtime_devices entries of
                           Inl error \<Rightarrow> Inl error
                         | Inr found \<Rightarrow> Inr (concat found)))))"

definition bootDevice :: "(string \<Rightarrow> string + string) \<Rightarrow> string \<Rightarrow> string list \<times> (js_error + unit)" where
  "bootDevice execAsync deviceId = await execAsync (''xcrun simctl boot '' @ deviceId) (\<lambda>out. Inr ())"

definition shutdownDevice :: "(string \<Rightarrow> string + string) \<Rightarrow> string \<Rightarrow> string list \<times> (js_error + unit)" where
  "shutdownDevice execAsync deviceId = await execAsync (''xcrun simctl shutdown '' @ deviceId) (\<lambda>out. Inr ())"

definition installApp ::
  "(string \<Rightarrow> string + string) \<Rightarrow> string \<Rightarrow> string \<Rightarrow> string list \<times> (js_error + unit)" where
  "installApp execAsync deviceId appPath =
     await execAsync (''xcrun simctl install '' @ deviceId @ '' '' @ [CHR 0x22] @ appPath @ [CHR 0x22])
       (\<lambda>out. Inr ())"

definition launchApp ::
  "(string \<Rightarrow> string + string) \<Rightarrow> string \<Rightarrow> string \<Rightarrow> string list \<times> (js_error + unit)" where
  "launchApp execAsync deviceId bundleId =
     await execAsync (''xcrun simctl launch '' @ deviceId @ '' '' @ bundleId) (\<lambda>out. Inr ())"

text \<open>A field of a parsed object, which is a string.\<close>

definition string_field :: "jsobj \<Rightarrow> string \<Rightarrow> string" where
  "string_field args k = (case js_get args k of JStr s \<Rightarrow> s | _ \<Rightarrow> [])"

text \<open>
  The call-tool handler. What it returns is \<open>{ toolResult: v }\<close>, an object with no
  \<open>content\<close> and no \<open>isError\<close> member; the model gives \<open>v\<close>. Its \<open>catch\<close> throws again
  every error it catches.
\<close>

definition success_true :: jsval where
  "success_true = JObj [(''success'', JBool True)]"

definition simulator_call_tool ::
  "js_runtime \<Rightarrow> (zod_object \<Rightarrow> jsobj \<Rightarrow> string) \<Rightarrow> (string \<Rightarrow> string + string) \<Rightarrow> string
     \<Rightarrow> jsobj option \<Rightarrow> string list \<times> (js_error + jsval)" where
  "simulator_call_tool rt zod_message execAsync toolName arguments =
    (case arguments of
       None \<Rightarrow> ([], Inl (Error ''Arguments are required''))
     | Some request_arguments \<Rightarrow>
        (if toolName = ''list_simulators'' then
           (case listDevices rt execAsync of
              (calls, Inl error) \<Rightarrow> (calls, Inl error)
            | (calls, Inr devices) \<Rightarrow> (calls, Inr (JObj [(''devices'', JArr devices)])))
         else if toolName = ''boot_simulator'' then
           (case zod_parse zod_message BootSimulatorSchema request_arguments of
              Inl error \<Rightarrow> ([], Inl error)
            | Inr args \<Rightarrow>
                (case bootDevice execAsync (string_field args ''deviceId'') of
                   (calls, Inl error) \<Rightarrow> (calls, Inl error)
                 | (calls, Inr u) \<Rightarrow> (calls, Inr success_true)))
         else if toolName = ''shutdown_simulator'' then
           (case zod_parse zod_message ShutdownSimulatorSchema request_arguments of
              Inl error \<Rightarrow> ([], Inl error)
            | Inr args \<Rightarrow>
                (case shutdownDevice execAsync (string_field args ''deviceId'') of
                   (calls, Inl error) \<Rightarrow> (calls, Inl error)
                 | (calls, Inr u) \<Rightarrow> (calls, Inr success_true)))
         else if toolName = ''install_app'' then
           (case zod_parse zod_message InstallAppSchema request_arguments of
              Inl error \<Rightarrow> ([], Inl error)
            | Inr args \<Rightarrow>
                (case installApp execAsync (string_field args ''deviceId'') (string_field args ''appPath'') of
                   (calls, Inl error) \<Rightarrow> (calls, Inl error)
                 | (calls, Inr u) \<Rightarrow> (calls, Inr success_true)))
         else if toolName = ''launch_app'' then
           (case zod_parse zod_message LaunchAppSchema request_arguments of
              Inl error \<Rightarrow> ([], Inl error)
            | Inr args \<Rightarrow>
                (case launchApp execAsync (string_field args ''deviceId'') (string_field args ''bundleId'') of
                   (calls, Inl error) \<Rightarrow> (calls, Inl error)
                 | (calls, Inr u) \<Rightarrow> (calls, Inr success_true)))
         else ([], Inl (Error (''Unknown tool: '' @ toolName)))))"

section \<open>The server template\<close>

text \<open>The template registers an empty catalog first and the catalog below after it.\<close>

definition template_tools_initial :: "tool list" where
  "template_tools_initial = []"

definition template_tools :: "tool list" where
  "template_tools = [
    \<lparr>name = ''calculate_sum'',
     description = ''Add two numbers together'',
     inputSchema = JObj [
            (''type'', JStr ''object''),
            (''properties'', JObj [
              (''a'', JObj [(''type'', JStr ''number'')]),
              (''b'', JObj [(''type'', JStr ''number'')])]),
            (''required'', JArr [JStr ''a'', JStr ''b''])]\<rparr>]"

section \<open>Process start\<close>

text \<open>
  What running a module's top level comes to: an error thrown there is uncaught and ends
  the process (Node exits with status 1), \<open>process.exit(n)\<close> ends it with status \<open>n\<close>, and
  otherwise \<open>server.connect(transport)\<close> is reached, from where requests are read.
\<close>

datatype process_state = Uncaught js_error | Exited int | Connected

definition exit_status :: "process_state \<Rightarrow> int option" where
  "exit_status s = (case s of Uncaught error \<Rightarrow> Some 1 | Exited n \<Rightarrow> Some n | Connected \<Rightarrow> None)"

definition accepts_requests :: "process_state \<Rightarrow> bool" where
  "accepts_requests s = (s = Connected)"

text \<open>\<open>!process.env.K\<close>: the variable is unset or empty.\<close>

definition env_missing :: "string option \<Rightarrow> bool" where
  "env_missing v = (case v of None \<Rightarrow> True | Some s \<Rightarrow> s = [])"

definition telegram_main :: "(string \<Rightarrow> string option) \<Rightarrow> process_state" where
  "telegram_main env =
     (if env_missing (env ''TELEGRAM_BOT_TOKEN'')
      then Uncaught (Error ''TELEGRAM_BOT_TOKEN environment variable is required'')
      else Connected)"

definition obsidian_main :: "(string \<Rightarrow> string option) \<Rightarrow> process_state" where
  "obsidian_main env =
     (if env_missing (env ''OBSIDIAN_VAULT_PATH'')
      then Uncaught (Error ''OBSIDIAN_VAULT_PATH environment variable is required'')
      else Connected)"

definition supabase_main :: "(string \<Rightarrow> string option) \<Rightarrow> process_state" where
  "supabase_main env =
     (if env_missing (env ''SUPABASE_URL'') \<or> env_missing (env ''SUPABASE_KEY'')
      then Uncaught (Error ''SUPABASE_URL and SUPABASE_KEY environment variables are required'')
      else Connected)"

text \<open>
  The Bluesky \<open>main\<close>: the credentials are checked, then the session logs in (an oracle
  from identifier and password to the error raised or the response's \<open>success\<close>); a
  rejection of \<open>main()\<close> is caught by \<open>process.exit(1)\<close>.
\<close>

definition bluesky_main ::
  "(string \<Rightarrow> string option) \<Rightarrow> (string \<Rightarrow> string \<Rightarrow> string + bool) \<Rightarrow> process_state" where
  "bluesky_main env login =
     (case env ''BLUESKY_APP_KEY'' of
        None \<Rightarrow> Exited 1
      | Some blueskyToken \<Rightarrow>
          (case env ''BLUESKY_IDENTIFIER'' of
             None \<Rightarrow> Exited 1
           | Some blueskyIdentifier \<Rightarrow>
               if blueskyToken = [] \<or> blueskyIdentifier = [] then Exited 1
               else (case login blueskyIdentifier blueskyToken of
                       Inl error \<Rightarrow> Exited 1
                     | Inr success \<Rightarrow> if \<not> success then Exited 1 else Connected)))"

section \<open>JSON texts\<close>

text \<open>
  \<open>JSON.stringify\<close> and \<open>JSON.parse\<close> are the runtime's, and the handlers reach them
  through the runtime parameter. This section writes both out, after the ECMAScript
  definition of the JSON object, on the values whose text involves neither floating point
  nor the reordering of properties: \<open>null\<close>, the booleans, the integers of the safe range,
  strings, and arrays and objects of such values, the keys of an object distinct and none
  of them an array index. A character is a code unit below 256.
\<close>

subsection \<open>Strings\<close>









subsection \<open>Integers\<close>









subsection \<open>Values\<close>














section \<open>Concrete environments\<close>

text \<open>
  Capabilities that always fail with a given message or always resolve to a given value,
  and a small runtime, for evaluating the handlers on concrete requests. The theorems
  below hold for every runtime and every capability, the round trip of a successful call
  for every conforming runtime.
\<close>

definition rejecting :: "string \<Rightarrow> 'c \<Rightarrow> string + 'r" where
  "rejecting m c = Inl m"

definition resolving :: "'r \<Rightarrow> 'c \<Rightarrow> string + 'r" where
  "resolving r c = Inr r"

definition plain_runtime :: js_runtime where
  "plain_runtime =
     \<lparr>stringify = (\<lambda>n v. case v of
                             JNull \<Rightarrow> ''null''
                           | JStr s \<Rightarrow> [CHR 0x22] @ s @ [CHR 0x22]
                           | _ \<Rightarrow> ''{}''),
      json_parse = (\<lambda>s. if s = ''null'' then Inr JNull else Inl ''Unexpected token''),
      number_text = (\<lambda>q. ''0''),
      date_value = (\<lambda>v. None),
      lower_case = (\<lambda>s. s)\<rparr>"



text \<open>
  \<open>inputSchema.properties[k].default\<close> of an advertised tool: the default the schema
  declares for argument \<open>k\<close>, \<open>undefined\<close> when it declares none.
\<close>

definition declared_default :: "tool \<Rightarrow> string \<Rightarrow> jsval" where
  "declared_default t k =
     (case inputSchema t of
        JObj schema \<Rightarrow>
          (case js_get schema ''properties'' of
             JObj props \<Rightarrow> (case js_get props k of JObj p \<Rightarrow> js_get p ''default'' | _ \<Rightarrow> JUndefined)
           | _ \<Rightarrow> JUndefined)
      | _ \<Rightarrow> JUndefined)"

section \<open>Basic facts\<close>

lemma await_Inl: "cap c = Inl m \<Longrightarrow> await cap c k = ([c], Inl (Error m))"
  by (simp add: await_def)

lemma await_Inr: "cap c = Inr r \<Longrightarrow> await cap c k = ([c], k r)"
  by (simp add: await_def)

lemma fst_await: "fst (await cap c k) = [c]"
  by (simp add: await_def split: sum.splits)


lemma js_get_Nil: "js_get [] k = JUndefined"
  by (simp add: js_get_def)


lemma bluesky_names:
  "map name bluesky_tools =
     [''bluesky_get_profile'', ''bluesky_get_posts'', ''bluesky_search_posts'',
      ''bluesky_get_follows'', ''bluesky_get_followers'', ''bluesky_get_liked_posts'',
      ''bluesky_get_personal_feed'', ''bluesky_search_profiles'']"
  by (simp add: bluesky_tools_def getProfileTool_def getPostsTool_def searchPostsTool_def
      getFollowsTool_def getFollowersTool_def getLikedPostsTool_def getPersonalFeedTool_def
      searchProfilesTool_def)

lemma telegram_names:
  "map name telegram_tools = [''send_message'', ''get_chat'', ''send_photo'', ''get_updates'']"
  by (simp add: telegram_tools_def)

lemma rss_names: "map name rss_tools = [''fetch_feed'', ''get_feed_items'']"
  by (simp add: rss_tools_def)

lemma supabase_names:
  "map name supabase_tools =
     [''execute_sql'', ''query_data'', ''insert_data'', ''update_data'', ''delete_data'', ''rpc'']"
  by (simp add: supabase_tools_def)

lemma shortcuts_names: "map name TOOLS = [''run_shortcut'', ''list_shortcuts'']"
  by (simp add: TOOLS_def)

lemma obsidian_names: "map name obsidian_tools = [''read_note'', ''write_note'', ''search_notes'']"
  by (simp add: obsidian_tools_def)

lemma simulator_names:
  "map name (simulator_tools z) =
     [''list_simulators'', ''boot_simulator'', ''shutdown_simulator'', ''install_app'', ''launch_app'']"
  by (simp add: simulator_tools_def)

lemma template_names: "map name template_tools = [''calculate_sum'']"
  by (simp add: template_tools_def)

section \<open>Unknown tools\<close>

lemma telegram_unknown_tool:
  assumes "toolName \<notin> set (map name telegram_tools)"
  shows "telegram_call_tool rt tbot toolName arguments =
           ([], Inl (McpError InternalError
                  (''Telegram API error: MCP error -32601: Unknown tool: '' @ toolName)))"
  using assms by (simp add: telegram_tools_def telegram_call_tool_def telegram_switch_def)

lemma rss_unknown_tool:
  assumes "toolName \<notin> set (map name rss_tools)"
  shows "rss_call_tool rt parseURL toolName arguments =
           ([], Inl (McpError MethodNotFound (''Unknown tool: '' @ toolName)))"
  using assms by (simp add: rss_tools_def rss_call_tool_def)

lemma obsidian_unknown_tool:
  assumes "toolName \<notin> set (map name obsidian_tools)"
  shows "obsidian_call_tool rt vault toolName arguments =
           ([], Inl (McpError MethodNotFound (''Unknown tool: '' @ toolName)))"
  using assms by (simp add: obsidian_tools_def obsidian_call_tool_def obsidian_switch_def)

lemma supabase_unknown_tool:
  assumes "toolName \<notin> set (map name supabase_tools)"
  shows "supabase_call_tool rt supabase toolName arguments =
           ([], Inr (error_result (''Error: MCP error -32601: Unknown tool: '' @ toolName)))"
  using assms by (simp add: supabase_tools_def supabase_call_tool_def supabase_switch_def)

lemma shortcuts_unknown_tool:
  assumes "toolName \<notin> set (map name TOOLS)"
  shows "shortcuts_call_tool rt exec available toolName arguments =
           ([], available, Inr (error_result (''Unknown tool: '' @ toolName)))"
  using assms by (simp add: TOOLS_def shortcuts_call_tool_def handleToolCall_def)

lemma bluesky_unknown_tool:
  assumes "toolName \<notin> set (map name bluesky_tools)"
  shows "bluesky_call_tool rt blueskyIdentifier agent toolName (Some args) =
           ([], Inr (text_result (stringify rt 0 (JObj [(''error'', JStr (''Unknown tool: '' @ toolName))]))))"
  using assms by (simp add: bluesky_names bluesky_call_tool_def bluesky_switch_def)

lemma simulator_unknown_tool:
  assumes "toolName \<notin> set (map name (simulator_tools z))"
  shows "simulator_call_tool rt zod_message execAsync toolName (Some args) =
           ([], Inl (Error (''Unknown tool: '' @ toolName)))"
  using assms by (simp add: simulator_names simulator_call_tool_def)

text \<open>
  C3. A tool name outside the catalog is to give a MethodNotFound outcome and no
  capability call. The Telegram handler throws \<open>McpError(MethodNotFound)\<close> in its
  \<open>default\<close> case inside the \<open>try\<close> block, and its own \<open>catch\<close> replaces it: the request
  \<open>unknown_tool\<close> with \<open>{}\<close> ends in an InternalError whose message is that of a Telegram
  API error. No capability is called.
\<close>

theorem telegram_unknown_tool_is_internal_error:
  "telegram_call_tool rt tbot ''unknown_tool'' (Some []) =
     ([], Inl (McpError InternalError
            ''Telegram API error: MCP error -32601: Unknown tool: unknown_tool''))"
  by (simp add: telegram_call_tool_def telegram_switch_def)

section \<open>Catalogs\<close>

text \<open>
  C8. In the catalog every adapter's list-tools handler returns, no two entries have the
  same name.
\<close>

theorem catalog_names_distinct:
  "distinct (map name (snd (telegram_list_tools tbot)))
   \<and> distinct (map name (snd (rss_list_tools parseURL)))
   \<and> distinct (map name (snd (supabase_list_tools supabase)))
   \<and> distinct (map name (snd (bluesky_list_tools agent)))
   \<and> distinct (map name (snd (snd (shortcuts_list_tools exec available))))
   \<and> distinct (map name (snd (obsidian_list_tools vault)))
   \<and> distinct (map name (snd (simulator_list_tools z simulatorService)))
   \<and> distinct (map name template_tools_initial)
   \<and> distinct (map name template_tools)"
  by (simp add: telegram_list_tools_def rss_list_tools_def supabase_list_tools_def
      bluesky_list_tools_def shortcuts_list_tools_def obsidian_list_tools_def
      simulator_list_tools_def template_tools_initial_def
      telegram_names rss_names supabase_names bluesky_names shortcuts_names obsidian_names
      simulator_names template_names)

text \<open>
  C7. Listing the tools twice gives catalogs equal in content and order, whatever the
  external system answers at either listing (the primed and unprimed capabilities), and a
  listing calls no capability and changes no state. This holds for the adapters with a
  fixed catalog, which are all of them: the Shortcuts adapter refreshes its list of
  shortcuts, not its tool catalog.
\<close>

theorem list_tools_idempotent:
  "snd (telegram_list_tools tbot) = snd (telegram_list_tools tbot') \<and> fst (telegram_list_tools tbot) = []
   \<and> snd (obsidian_list_tools vault) = snd (obsidian_list_tools vault') \<and> fst (obsidian_list_tools vault) = []
   \<and> snd (rss_list_tools parseURL) = snd (rss_list_tools parseURL') \<and> fst (rss_list_tools parseURL) = []
   \<and> snd (supabase_list_tools supabase) = snd (supabase_list_tools supabase') \<and> fst (supabase_list_tools supabase) = []
   \<and> snd (bluesky_list_tools agent) = snd (bluesky_list_tools agent') \<and> fst (bluesky_list_tools agent) = []
   \<and> snd (simulator_list_tools z service) = snd (simulator_list_tools z service')
   \<and> fst (simulator_list_tools z service) = []
   \<and> snd (snd (shortcuts_list_tools exec available)) = snd (snd (shortcuts_list_tools exec' available'))
   \<and> fst (shortcuts_list_tools exec available) = []
   \<and> fst (snd (shortcuts_list_tools exec available)) = available"
  by (simp add: telegram_list_tools_def rss_list_tools_def supabase_list_tools_def
      bluesky_list_tools_def shortcuts_list_tools_def obsidian_list_tools_def
      simulator_list_tools_def)

section \<open>Outcomes of capability calls\<close>

text \<open>
  Each handler makes at most one capability call. The lemmas below read an invocation
  whose call list is \<open>[c]\<close> with the capability failing (\<open>Inl m\<close>) or resolving
  (\<open>Inr r\<close>) at \<open>c\<close>.
\<close>

lemma telegram_failure:
  "fst (telegram_call_tool rt tbot n a) = [c] \<Longrightarrow> tbot c = Inl m \<Longrightarrow>
   snd (telegram_call_tool rt tbot n a) = Inl (McpError InternalError (''Telegram API error: '' @ m))"
  by (auto simp: telegram_call_tool_def telegram_switch_def await_def split: if_splits option.splits sum.splits prod.splits)


lemma supabase_failure:
  "fst (supabase_call_tool rt db n a) = [c] \<Longrightarrow> db c = Inl m \<Longrightarrow>
   snd (supabase_call_tool rt db n a) = Inr (error_result (''Error: '' @ m))"
  by (auto simp: supabase_call_tool_def supabase_switch_def await_def split: if_splits option.splits sum.splits prod.splits)


lemma obsidian_failure:
  "fst (obsidian_call_tool rt vault n a) = [c] \<Longrightarrow> vault c = Inl m \<Longrightarrow>
   snd (obsidian_call_tool rt vault n a) = Inl (McpError InternalError m)"
  by (auto simp: obsidian_call_tool_def obsidian_switch_def await_def split: if_splits option.splits sum.splits prod.splits js_error.splits)


lemma bluesky_failure:
  "fst (bluesky_call_tool rt ident agent n a) = [c] \<Longrightarrow> agent c = Inl m \<Longrightarrow>
   snd (bluesky_call_tool rt ident agent n a) = Inr (text_result (stringify rt 0 (JObj [(''error'', JStr m)])))"
  by (auto simp: bluesky_call_tool_def bluesky_switch_def await_def split: if_splits option.splits sum.splits prod.splits)


lemma rss_failure:
  "fst (rss_call_tool rt parseURL n a) = [u] \<Longrightarrow> parseURL u = Inl m \<Longrightarrow>
   snd (rss_call_tool rt parseURL n a) =
     Inr (error_result ((if n = ''fetch_feed'' then ''Failed to fetch feed: '' else ''Failed to fetch feed items: '') @ m))"
  by (auto simp: rss_call_tool_def handleFetchFeed_def handleGetFeedItems_def await_def split: if_splits option.splits sum.splits prod.splits jsval.splits)

lemma shortcuts_failure:
  "fst (shortcuts_call_tool rt exec av ''run_shortcut'' a) = [c] \<Longrightarrow> exec c = Inl m \<Longrightarrow>
   snd (snd (shortcuts_call_tool rt exec av ''run_shortcut'' a)) = Inr (error_result (''Failed to run shortcut: '' @ m))"
  by (auto simp: shortcuts_call_tool_def handleToolCall_def Let_def split: if_splits option.splits sum.splits prod.splits)

lemma simulator_failure:
  "fst (simulator_call_tool rt zm execAsync n a) = [c] \<Longrightarrow> execAsync c = Inl m \<Longrightarrow>
   snd (simulator_call_tool rt zm execAsync n a) = Inl (Error m)"
  unfolding simulator_call_tool_def listDevices_def bootDevice_def shutdownDevice_def
      installApp_def launchApp_def await_def
  by (auto split: if_splits option.splits sum.splits prod.splits)

lemma simulator_boot_success:
  "execAsync (''xcrun simctl boot '' @ d) = Inr out \<Longrightarrow>
   simulator_call_tool rt zm execAsync ''boot_simulator'' (Some [(''deviceId'', JStr d)]) =
     ([''xcrun simctl boot '' @ d], Inr success_true)"
  by (simp add: simulator_call_tool_def zod_parse_def BootSimulatorSchema_def js_get_def
      string_field_def bootDevice_def await_def)


lemma fst_telegram_call_tool:
  "fst (telegram_call_tool rt tbot n a) = fst (telegram_switch rt tbot n a)"
  by (simp add: telegram_call_tool_def split: prod.splits sum.splits)

lemma fst_bluesky_call_tool:
  "fst (bluesky_call_tool rt ident agent n a) = fst (bluesky_switch rt ident agent n a)"
  by (simp add: bluesky_call_tool_def split: prod.splits sum.splits)

text \<open>
  C1, as stated, fails on the Telegram adapter: with the chat lookup rejected by the remote
  API, \<open>get_chat\<close> does not return an envelope; the handler's \<open>catch\<close> throws an
  \<open>McpError\<close>, which leaves the handler as a protocol-level error.
\<close>

theorem telegram_failure_is_thrown:
  "rejecting ''ETELEGRAM: 400 Bad Request: chat not found'' (GetChat (JStr ''@x'')) =
     (Inl ''ETELEGRAM: 400 Bad Request: chat not found'' :: string + jsval)
   \<and> telegram_call_tool plain_runtime (rejecting ''ETELEGRAM: 400 Bad Request: chat not found'')
        ''get_chat'' (Some [(''chat_id'', JStr ''@x'')]) =
       ([GetChat (JStr ''@x'')],
        Inl (McpError InternalError ''Telegram API error: ETELEGRAM: 400 Bad Request: chat not found''))"
  by (simp add: rejecting_def telegram_call_tool_def telegram_switch_def await_def js_get_def)

text \<open>
  C1, amended. When the capability call of an invocation fails with message \<open>m\<close>: the
  Supabase and RSS handlers and the Shortcuts \<open>run_shortcut\<close> return an envelope with
  \<open>isError\<close> true whose text ends in \<open>m\<close>; the Telegram and Obsidian handlers throw an
  \<open>McpError\<close> with code InternalError whose message carries \<open>m\<close>; the simulator handler
  throws the error again as it is; the Bluesky handler returns an envelope whose text is
  the JSON rendering of \<open>{ error: m }\<close>.
\<close>

theorem capability_failure_outcomes:
  "(fst (supabase_call_tool rt supabase toolName arguments) = [c1] \<and> supabase c1 = Inl m \<longrightarrow>
      snd (supabase_call_tool rt supabase toolName arguments) = Inr (error_result (''Error: '' @ m)))
   \<and> (fst (rss_call_tool rt parseURL toolName arguments) = [c2] \<and> parseURL c2 = Inl m \<longrightarrow>
      snd (rss_call_tool rt parseURL toolName arguments) =
        Inr (error_result ((if toolName = ''fetch_feed'' then ''Failed to fetch feed: ''
                            else ''Failed to fetch feed items: '') @ m)))
   \<and> (fst (shortcuts_call_tool rt exec available ''run_shortcut'' arguments) = [c3] \<and> exec c3 = Inl m \<longrightarrow>
      snd (snd (shortcuts_call_tool rt exec available ''run_shortcut'' arguments)) =
        Inr (error_result (''Failed to run shortcut: '' @ m)))
   \<and> (fst (telegram_call_tool rt tbot toolName arguments) = [c4] \<and> tbot c4 = Inl m \<longrightarrow>
      snd (telegram_call_tool rt tbot toolName arguments) =
        Inl (McpError InternalError (''Telegram API error: '' @ m)))
   \<and> (fst (obsidian_call_tool rt vault toolName arguments) = [c5] \<and> vault c5 = Inl m \<longrightarrow>
      snd (obsidian_call_tool rt vault toolName arguments) = Inl (McpError InternalError m))
   \<and> (fst (simulator_call_tool rt zod_message execAsync toolName arguments) = [c7] \<and> execAsync c7 = Inl m \<longrightarrow>
      snd (simulator_call_tool rt zod_message execAsync toolName arguments) = Inl (Error m))
   \<and> (fst (bluesky_call_tool rt blueskyIdentifier agent toolName arguments) = [c6] \<and> agent c6 = Inl m \<longrightarrow>
      snd (bluesky_call_tool rt blueskyIdentifier agent toolName arguments) =
        Inr (text_result (stringify rt 0 (JObj [(''error'', JStr m)]))))"
proof (intro conjI impI; elim conjE)
  show "fst (supabase_call_tool rt supabase toolName arguments) = [c1] \<Longrightarrow> supabase c1 = Inl m \<Longrightarrow>
      snd (supabase_call_tool rt supabase toolName arguments) = Inr (error_result (''Error: '' @ m))"
    by (rule supabase_failure)
  show "fst (rss_call_tool rt parseURL toolName arguments) = [c2] \<Longrightarrow> parseURL c2 = Inl m \<Longrightarrow>
      snd (rss_call_tool rt parseURL toolName arguments) =
        Inr (error_result ((if toolName = ''fetch_feed'' then ''Failed to fetch feed: ''
                            else ''Failed to fetch feed items: '') @ m))"
    by (rule rss_failure)
  show "fst (shortcuts_call_tool rt exec available ''run_shortcut'' arguments) = [c3] \<Longrightarrow> exec c3 = Inl m \<Longrightarrow>
      snd (snd (shortcuts_call_tool rt exec available ''run_shortcut'' arguments)) =
        Inr (error_result (''Failed to run shortcut: '' @ m))"
    by (rule shortcuts_failure)
  show "fst (telegram_call_tool rt tbot toolName arguments) = [c4] \<Longrightarrow> tbot c4 = Inl m \<Longrightarrow>
      snd (telegram_call_tool rt tbot toolName arguments) =
        Inl (McpError InternalError (''Telegram API error: '' @ m))"
    by (rule telegram_failure)
  show "fst (obsidian_call_tool rt vault toolName arguments) = [c5] \<Longrightarrow> vault c5 = Inl m \<Longrightarrow>
      snd (obsidian_call_tool rt vault toolName arguments) = Inl (McpError InternalError m)"
    by (rule obsidian_failure)
  show "fst (simulator_call_tool rt zod_message execAsync toolName arguments) = [c7] \<Longrightarrow> execAsync c7 = Inl m \<Longrightarrow>
      snd (simulator_call_tool rt zod_message execAsync toolName arguments) = Inl (Error m)"
    by (rule simulator_failure)
  show "fst (bluesky_call_tool rt blueskyIdentifier agent toolName arguments) = [c6] \<Longrightarrow> agent c6 = Inl m \<Longrightarrow>
      snd (bluesky_call_tool rt blueskyIdentifier agent toolName arguments) =
        Inr (text_result (stringify rt 0 (JObj [(''error'', JStr m)])))"
    by (rule bluesky_failure)
qed

theorem capability_failure_witness:
  "fst (supabase_call_tool plain_runtime (rejecting ''relation does not exist'') ''rpc''
          (Some [(''function'', JStr ''f'')])) = [Rpc (JStr ''f'') (JObj [])]
   \<and> rejecting ''relation does not exist'' (Rpc (JStr ''f'') (JObj [])) = (Inl ''relation does not exist'' :: string + jsval)
   \<and> snd (supabase_call_tool plain_runtime (rejecting ''relation does not exist'') ''rpc''
          (Some [(''function'', JStr ''f'')])) = Inr (error_result ''Error: relation does not exist'')"
proof -
  let ?db = "rejecting ''relation does not exist'' :: supabase_call \<Rightarrow> string + jsval"
  have made: "fst (supabase_call_tool plain_runtime ?db ''rpc'' (Some [(''function'', JStr ''f'')]))
                = [Rpc (JStr ''f'') (JObj [])]"
    by (simp add: supabase_call_tool_def supabase_switch_def await_def js_get_def default_to_def
        rejecting_def)
  have failed: "?db (Rpc (JStr ''f'') (JObj [])) = Inl ''relation does not exist''"
    by (simp add: rejecting_def)
  from capability_failure_outcomes [THEN conjunct1, rule_format, OF conjI, OF made failed]
  have "snd (supabase_call_tool plain_runtime ?db ''rpc'' (Some [(''function'', JStr ''f'')]))
          = Inr (error_result (''Error: '' @ ''relation does not exist''))" .
  with made failed show ?thesis by simp
qed

section \<open>Arguments\<close>




text \<open>
  C9, as stated, fails on the Bluesky adapter: the schema of \<open>bluesky_get_posts\<close> declares
  the default 50 for \<open>limit\<close>, and an invocation without \<open>limit\<close> calls the agent with an
  undefined limit, which is not the call made when 50 is passed. It fails on the Telegram
  adapter the other way round: the schema of \<open>get_updates\<close> declares no default for
  \<open>limit\<close>, and an invocation without it calls the bot with limit 10.
\<close>

theorem bluesky_limit_not_defaulted:
  "declared_default getPostsTool ''limit'' = JNum 50
   \<and> fst (bluesky_call_tool plain_runtime ''alice.bsky.social'' (resolving JNull) ''bluesky_get_posts'' (Some []))
       = [GetAuthorFeed ''alice.bsky.social'' JUndefined JUndefined]
   \<and> fst (bluesky_call_tool plain_runtime ''alice.bsky.social'' (resolving JNull) ''bluesky_get_posts''
            (Some [(''limit'', JNum 50)]))
       = [GetAuthorFeed ''alice.bsky.social'' (JNum 50) JUndefined]
   \<and> GetAuthorFeed ''alice.bsky.social'' JUndefined JUndefined
       \<noteq> GetAuthorFeed ''alice.bsky.social'' (JNum 50) JUndefined
   \<and> declared_default (telegram_tools ! 3) ''limit'' = JUndefined
   \<and> fst (telegram_call_tool plain_runtime (resolving (JArr [])) ''get_updates'' (Some []))
       = [GetUpdates (JNum 10) (JNum 0)]"
  by (simp add: declared_default_def getPostsTool_def js_get_def bluesky_call_tool_def
      bluesky_switch_def await_def resolving_def telegram_tools_def telegram_call_tool_def
      telegram_switch_def default_to_def)

lemma telegram_get_updates_schema:
  "declared_default (telegram_tools ! 3) ''limit'' = JUndefined
   \<and> declared_default (telegram_tools ! 3) ''timeout'' = JUndefined
   \<and> name (telegram_tools ! 3) = ''get_updates''"
  by (simp add: telegram_tools_def declared_default_def js_get_def)

text \<open>
  C9, amended. No handler fills an absent argument from the advertised schema. The Bluesky
  handler passes an absent \<open>limit\<close> to the agent as \<open>undefined\<close>, for each of its
  tools that take one; the Telegram \<open>get_updates\<close> handler passes limit 10 and timeout 0
  for absent fields, and its schema declares no \<open>default\<close> for either.
\<close>

theorem absent_optional_arguments:
  "(js_get args ''limit'' = JUndefined \<longrightarrow>
      fst (bluesky_call_tool rt ident agent ''bluesky_get_posts'' (Some args))
        = [GetAuthorFeed ident JUndefined (js_get args ''cursor'')]
    \<and> fst (bluesky_call_tool rt ident agent ''bluesky_get_follows'' (Some args))
        = [GetFollows ident JUndefined (js_get args ''cursor'')]
    \<and> fst (bluesky_call_tool rt ident agent ''bluesky_get_followers'' (Some args))
        = [GetFollowers ident JUndefined (js_get args ''cursor'')]
    \<and> fst (bluesky_call_tool rt ident agent ''bluesky_get_liked_posts'' (Some args))
        = [GetActorLikes ident JUndefined (js_get args ''cursor'')]
    \<and> fst (bluesky_call_tool rt ident agent ''bluesky_get_personal_feed'' (Some args))
        = [GetTimeline JUndefined (js_get args ''cursor'')])
   \<and> (js_get args ''limit'' = JUndefined \<and> truthy (js_get args ''query'') \<longrightarrow>
      fst (bluesky_call_tool rt ident agent ''bluesky_search_posts'' (Some args))
        = [SearchPosts (js_get args ''query'') JUndefined (js_get args ''cursor'')]
    \<and> fst (bluesky_call_tool rt ident agent ''bluesky_search_profiles'' (Some args))
        = [SearchActors (js_get args ''query'') JUndefined (js_get args ''cursor'')])
   \<and> (js_get args ''limit'' = JUndefined \<and> js_get args ''timeout'' = JUndefined \<longrightarrow>
      fst (telegram_call_tool rt tbot ''get_updates'' (Some args)) = [GetUpdates (JNum 10) (JNum 0)])
   \<and> declared_default (telegram_tools ! 3) ''limit'' = JUndefined
   \<and> declared_default (telegram_tools ! 3) ''timeout'' = JUndefined"
  by (simp add: telegram_get_updates_schema fst_bluesky_call_tool bluesky_switch_def
      fst_telegram_call_tool telegram_switch_def default_to_def fst_await)

theorem absent_optional_arguments_witness:
  "js_get [(''cursor'', JStr ''p2'')] ''limit'' = JUndefined
   \<and> fst (bluesky_call_tool plain_runtime ''alice.bsky.social'' (resolving JNull) ''bluesky_get_posts''
            (Some [(''cursor'', JStr ''p2'')]))
       = [GetAuthorFeed ''alice.bsky.social'' JUndefined (JStr ''p2'')]
   \<and> js_get [] ''limit'' = JUndefined \<and> js_get [] ''timeout'' = JUndefined
   \<and> fst (telegram_call_tool plain_runtime (resolving (JArr [])) ''get_updates'' (Some []))
       = [GetUpdates (JNum 10) (JNum 0)]"
proof -
  have absent: "js_get [(''cursor'', JStr ''p2'')] ''limit'' = JUndefined"
    and none: "js_get [] ''limit'' = JUndefined \<and> js_get [] ''timeout'' = JUndefined"
    by (simp_all add: js_get_def)
  have cursor: "js_get [(''cursor'', JStr ''p2'')] ''cursor'' = JStr ''p2''"
    by (simp add: js_get_def)
  note all = absent_optional_arguments
  from all [of "[(''cursor'', JStr ''p2'')]" plain_runtime "''alice.bsky.social''" "resolving JNull"]
    absent cursor
  have posts: "fst (bluesky_call_tool plain_runtime ''alice.bsky.social'' (resolving JNull) ''bluesky_get_posts''
            (Some [(''cursor'', JStr ''p2'')])) = [GetAuthorFeed ''alice.bsky.social'' JUndefined (JStr ''p2'')]"
    by simp
  from all [of "[]" plain_runtime _ _ "resolving (JArr [])"] none
  have updates: "fst (telegram_call_tool plain_runtime (resolving (JArr [])) ''get_updates'' (Some []))
       = [GetUpdates (JNum 10) (JNum 0)]"
    by simp
  from absent none posts updates show ?thesis by simp
qed









section \<open>Start and refresh\<close>

text \<open>
  C5. When a required configuration variable is unset (or empty), the Telegram, Obsidian,
  Supabase and Bluesky processes end with exit status 1 and never reach the state in which
  requests are accepted.
\<close>

theorem missing_configuration_fails_at_start:
  "(env_missing (env ''TELEGRAM_BOT_TOKEN'') \<longrightarrow>
      \<not> accepts_requests (telegram_main env) \<and> exit_status (telegram_main env) = Some 1)
   \<and> (env_missing (env ''OBSIDIAN_VAULT_PATH'') \<longrightarrow>
      \<not> accepts_requests (obsidian_main env) \<and> exit_status (obsidian_main env) = Some 1)
   \<and> (env_missing (env ''SUPABASE_URL'') \<or> env_missing (env ''SUPABASE_KEY'') \<longrightarrow>
      \<not> accepts_requests (supabase_main env) \<and> exit_status (supabase_main env) = Some 1)
   \<and> (env_missing (env ''BLUESKY_APP_KEY'') \<or> env_missing (env ''BLUESKY_IDENTIFIER'') \<longrightarrow>
      \<not> accepts_requests (bluesky_main env login) \<and> exit_status (bluesky_main env login) = Some 1)"
  by (auto simp: env_missing_def accepts_requests_def exit_status_def telegram_main_def
      obsidian_main_def supabase_main_def bluesky_main_def split: option.splits)

theorem missing_configuration_witness:
  "env_missing ((\<lambda>k. None) ''TELEGRAM_BOT_TOKEN'')
   \<and> \<not> accepts_requests (telegram_main (\<lambda>k. None))
   \<and> exit_status (telegram_main (\<lambda>k. None)) = Some 1
   \<and> exit_status (obsidian_main (\<lambda>k. None)) = Some 1
   \<and> exit_status (supabase_main (\<lambda>k. None)) = Some 1
   \<and> exit_status (bluesky_main (\<lambda>k. None) (\<lambda>i p. Inr True)) = Some 1"
proof -
  have absent: "env_missing ((\<lambda>k. None) K)" for K :: string
    by (simp add: env_missing_def)
  from missing_configuration_fails_at_start [of "\<lambda>k. None" "\<lambda>i p. Inr True"] absent
  show ?thesis by simp
qed

text \<open>
  C6. When \<open>shortcuts list\<close> fails, \<open>updateShortcutsList\<close> assigns the empty list, and
  \<open>list_shortcuts\<close> returns, without throwing, an envelope with \<open>isError\<close> false whose
  listing has no entry.
\<close>

theorem refresh_failure_gives_empty_listing:
  "exec ''shortcuts list'' = Inl m \<longrightarrow>
     updateShortcutsList exec = ([''shortcuts list''], [])
     \<and> shortcuts_call_tool rt exec available ''list_shortcuts'' arguments =
         ([''shortcuts list''], [],
          Inr \<lparr>content = [\<lparr>type = ''text'', text' = ''Available shortcuts:'' @ [CHR 0x0A]\<rparr>],
               isError = Some False\<rparr>)"
  by (simp add: updateShortcutsList_def shortcuts_call_tool_def handleToolCall_def)

theorem refresh_failure_witness:
  "rejecting ''Command failed: shortcuts list'' ''shortcuts list'' = (Inl ''Command failed: shortcuts list'' :: string + string)
   \<and> shortcuts_call_tool plain_runtime (rejecting ''Command failed: shortcuts list'') [''Backup''] ''list_shortcuts'' (Some []) =
         ([''shortcuts list''], [],
          Inr \<lparr>content = [\<lparr>type = ''text'', text' = ''Available shortcuts:'' @ [CHR 0x0A]\<rparr>],
               isError = Some False\<rparr>)"
proof -
  have failed: "rejecting ''Command failed: shortcuts list'' ''shortcuts list'' = (Inl ''Command failed: shortcuts list'' :: string + string)"
    by (simp add: rejecting_def)
  from refresh_failure_gives_empty_listing [of "rejecting ''Command failed: shortcuts list''" "''Command failed: shortcuts list''"
      plain_runtime "[''Backup'']" "Some []"] failed
  show ?thesis by simp
qed

section \<open>Successful calls and the JSON round trip\<close>

subsection \<open>Reading back a written text\<close>





declare string_of_nat.simps [simp del]
















































subsection \<open>The envelope of a successful call\<close>




end
